theory Spec2Isabelle
  imports Complex_Main "HOL-Library.Sublist" "HOL-Library.AList"
begin

section \<open>Text\<close>

text \<open>
  Python strings are modelled as \<open>string\<close>. The case mappings cover the ASCII letters, which
  is what every keyword and action name of the program is written in; any other character
  is left as it is. \<open>needle in haystack\<close> on strings is the contiguous-sublist test
  \<^const>\<open>sublist\<close>.
\<close>

definition lower_char :: "char \<Rightarrow> char" where
  "lower_char c =
     (if 65 \<le> (of_char c :: nat) \<and> (of_char c :: nat) \<le> 90
      then char_of ((of_char c :: nat) + 32) else c)"

definition upper_char :: "char \<Rightarrow> char" where
  "upper_char c =
     (if 97 \<le> (of_char c :: nat) \<and> (of_char c :: nat) \<le> 122
      then char_of ((of_char c :: nat) - 32) else c)"

definition lower :: "string \<Rightarrow> string" where
  "lower s = map lower_char s"

definition upper :: "string \<Rightarrow> string" where
  "upper s = map upper_char s"

definition any_in :: "string list \<Rightarrow> string \<Rightarrow> bool" where
  \<comment> \<open>\<open>any(word in text for word in words)\<close>\<close>
  "any_in words text = list_ex (\<lambda>w. sublist w text) words"

section \<open>Action plans\<close>

text \<open>
  A plan is a Python dict from field names to JSON values. Dicts keep insertion order and
  an assignment to a missing key appends it, which is what \<^const>\<open>AList.update\<close> does on an
  association list. Numbers are exact rationals.
\<close>

datatype jval = JNull | JBool bool | JNum rat | JStr string | JArr "jval list"
  | JObj "(string \<times> jval) list"

type_synonym plan = "(string \<times> jval) list"

definition has_key :: "string \<Rightarrow> plan \<Rightarrow> bool" where
  \<comment> \<open>\<open>key in plan\<close>\<close>
  "has_key k p = (map_of p k \<noteq> None)"

section \<open>LocalBrain (local\_llm\_module.py)\<close>

record LocalBrain =
  consecutive_failures :: int
  max_failures_before_fallback :: int

definition LocalBrain_init :: LocalBrain where
  "LocalBrain_init = \<lparr>consecutive_failures = 0, max_failures_before_fallback = 2\<rparr>"

text \<open>
  What one request to the generation endpoint yields: \<open>RequestFailed\<close> when
  \<open>requests.post\<close>, \<open>raise_for_status\<close> or \<open>response.json\<close> raises (connection error,
  timeout, HTTP error status, body that is not JSON), \<open>InvalidFormat\<close> when the body has no
  non-empty \<open>results\<close>, and \<open>Generated t\<close> when the text of the first result is \<open>t\<close>.
\<close>

datatype reply = RequestFailed | InvalidFormat | Generated string

definition combat_fallback_plan :: plan where
  "combat_fallback_plan =
     [(''action'', JStr ''VATS''), (''duration'', JNum 0.1),
      (''reason'', JStr ''engage_detected_threat''), (''source'', JStr ''combat_fallback'')]"

definition orientation_fallback_plan :: plan where
  "orientation_fallback_plan =
     [(''action'', JStr ''TAB''), (''duration'', JNum 0.1),
      (''reason'', JStr ''check_map_for_orientation''),
      (''source'', JStr ''orientation_fallback'')]"

definition investigation_fallback_plan :: plan where
  "investigation_fallback_plan =
     [(''action'', JStr ''INTERACT''), (''duration'', JNum 1.0),
      (''reason'', JStr ''investigate_objects''),
      (''source'', JStr ''investigation_fallback'')]"

definition exploration_fallback_plan :: plan where
  "exploration_fallback_plan =
     [(''action'', JStr ''FORWARD''), (''duration'', JNum 2.5),
      (''reason'', JStr ''continue_exploration''),
      (''source'', JStr ''exploration_fallback'')]"

definition default_fallback_plan :: plan where
  "default_fallback_plan =
     [(''action'', JStr ''SMOOTH_LOOK''), (''dx'', JNum 45), (''dy'', JNum 0),
      (''duration'', JNum 0.5), (''reason'', JStr ''assess_situation''),
      (''source'', JStr ''default_fallback'')]"

definition generate_smart_fallback_plan :: "string \<Rightarrow> plan" where
  "generate_smart_fallback_plan prompt =
     (let prompt_lower = lower prompt;
          has_threats = any_in [''threat'', ''enemy'', ''combat'', ''danger'', ''person'']
                          prompt_lower;
          needs_orientation = any_in [''location unknown'', ''map'', ''bearings'', ''orient'']
                                prompt_lower;
          has_objects = any_in [''objects'', ''container'', ''loot''] prompt_lower;
          is_clear = (sublist ''clear'' prompt_lower \<or> sublist ''safe'' prompt_lower)
      in if has_threats then combat_fallback_plan
         else if needs_orientation then orientation_fallback_plan
         else if has_objects then investigation_fallback_plan
         else if is_clear then exploration_fallback_plan
         else default_fallback_plan)"

definition extract_action_from_text :: "string \<Rightarrow> plan" where
  "extract_action_from_text text =
     (let text_lower = lower text
      in if sublist ''map'' text_lower \<or> sublist ''tab'' text_lower
         then [(''action'', JStr ''TAB''), (''duration'', JNum 0.1),
               (''reason'', JStr ''check map'')]
         else if sublist ''forward'' text_lower \<or> sublist ''move ahead'' text_lower
         then [(''action'', JStr ''FORWARD''), (''duration'', JNum 2.0),
               (''reason'', JStr ''move forward'')]
         else if sublist ''look'' text_lower
                 \<and> (sublist ''around'' text_lower \<or> sublist ''scan'' text_lower)
         then [(''action'', JStr ''SMOOTH_LOOK''), (''dx'', JNum 45), (''dy'', JNum 0),
               (''duration'', JNum 0.5), (''reason'', JStr ''look around'')]
         else if sublist ''attack'' text_lower \<or> sublist ''fight'' text_lower
                 \<or> sublist ''vats'' text_lower
         then [(''action'', JStr ''VATS''), (''duration'', JNum 0.1),
               (''reason'', JStr ''engage enemy'')]
         else if sublist ''interact'' text_lower \<or> sublist ''use'' text_lower
                 \<or> sublist ''pick'' text_lower
         then [(''action'', JStr ''INTERACT''), (''duration'', JNum 1.0),
               (''reason'', JStr ''interact with object'')]
         else if sublist ''wait'' text_lower \<or> sublist ''pause'' text_lower
         then [(''action'', JStr ''WAIT''), (''duration'', JNum 2.0),
               (''reason'', JStr ''wait and observe'')]
         else [(''action'', JStr ''FORWARD''), (''duration'', JNum 1.5),
               (''reason'', JStr ''continue exploration'')])"

text \<open>
  \<open>re.search(r'\{[^}]*\}', text, re.DOTALL)\<close>: the search starts at the first \<open>{\<close>; the
  class \<open>[^}]*\<close> runs up to the first \<open>}\<close> behind it, which closes the match. When no \<open>}\<close>
  follows the first \<open>{\<close>, none follows a later \<open>{\<close> either, and there is no match.
\<close>

definition search_flat_braces :: "string \<Rightarrow> string option" where
  "search_flat_braces text =
     (case dropWhile (\<lambda>c. c \<noteq> CHR ''{'') text of
        [] \<Rightarrow> None
      | c # cs \<Rightarrow>
          if CHR ''}'' \<in> set cs
          then Some (c # takeWhile (\<lambda>c. c \<noteq> CHR ''}'') cs @ ''}'')
          else None)"

definition set_defaults :: "plan \<Rightarrow> plan" where
  \<comment> \<open>the two \<open>if key not in plan: plan[key] = default\<close> statements\<close>
  "set_defaults plan =
     (let plan1 = (if \<not> has_key ''duration'' plan
                   then AList.update ''duration'' (JNum 1.0) plan else plan)
      in if \<not> has_key ''reason'' plan1
         then AList.update ''reason'' (JStr ''AI decision'') plan1 else plan1)"

text \<open>
  \<open>json.loads\<close> belongs to the Python library and is a parameter \<open>loads\<close> of the model:
  \<open>loads s = None\<close> stands for \<open>JSONDecodeError\<close>, \<open>loads s = Some d\<close> for the dict parsed
  from \<open>s\<close>. It is only ever applied to a text that starts with \<open>{\<close>, for which a
  successful parse is a dict.
\<close>

definition extract_plan_from_response :: "(string \<Rightarrow> plan option) \<Rightarrow> string \<Rightarrow> plan" where
  "extract_plan_from_response loads response_text =
     (case search_flat_braces response_text of
        None \<Rightarrow> extract_action_from_text response_text
      | Some json_str \<Rightarrow>
          (case loads json_str of
             None \<Rightarrow> extract_action_from_text response_text
           | Some plan \<Rightarrow>
               if has_key ''action'' plan then set_defaults plan
               else extract_action_from_text response_text))"

definition LocalBrain_get_plan ::
  "(string \<Rightarrow> plan option) \<Rightarrow> LocalBrain \<Rightarrow> reply \<Rightarrow> string \<Rightarrow> plan \<times> LocalBrain" where
  \<comment> \<open>\<open>r\<close> is what the one request of this call yields, should the call make it\<close>
  "LocalBrain_get_plan loads self r prompt =
     (if consecutive_failures self \<ge> max_failures_before_fallback self
      then (generate_smart_fallback_plan prompt, self)
      else
        (case r of
           Generated result_text \<Rightarrow>
             (let plan = extract_plan_from_response loads result_text
              in if plan \<noteq> []
                 then (plan, self\<lparr>consecutive_failures := 0\<rparr>)
                 else (generate_smart_fallback_plan prompt,
                       self\<lparr>consecutive_failures := consecutive_failures self + 1\<rparr>))
         | _ \<Rightarrow> (generate_smart_fallback_plan prompt,
                 self\<lparr>consecutive_failures := consecutive_failures self + 1\<rparr>)))"

definition well_formed_plan :: "plan \<Rightarrow> bool" where
  "well_formed_plan p = (has_key ''action'' p \<and> has_key ''duration'' p \<and> has_key ''reason'' p)"

section \<open>BigBrain (llm\_module.py)\<close>

text \<open>
  \<open>re.search(r'\{.*\}', text, re.DOTALL)\<close>: the search starts at the first \<open>{\<close>; the greedy
  \<open>.*\<close> (which with \<open>DOTALL\<close> matches every character) runs to the end of the text and
  backs up to the last \<open>}\<close>. When no \<open>}\<close> follows the first \<open>{\<close> there is no match.
\<close>

definition search_braces :: "string \<Rightarrow> string option" where
  "search_braces text =
     (let rest = dropWhile (\<lambda>c. c \<noteq> CHR ''{'') text;
          m = rev (dropWhile (\<lambda>c. c \<noteq> CHR ''}'') (rev rest))
      in if m = [] then None else Some m)"

definition BigBrain_parse_response :: "(string \<Rightarrow> plan option) \<Rightarrow> string \<Rightarrow> plan option" where
  \<comment> \<open>what \<open>get_plan\<close> returns once the response text is \<open>result_text\<close>;
      \<open>None\<close> is Python's \<open>None\<close>\<close>
  "BigBrain_parse_response loads result_text =
     (case search_braces result_text of
        None \<Rightarrow> None
      | Some json_string \<Rightarrow> loads json_string)"

section \<open>LightweightBrain (local\_llm\_lightweight.py)\<close>

record LightweightBrain =
  lw_consecutive_failures :: int
  lw_max_failures_before_fallback :: int

definition LightweightBrain_init :: LightweightBrain where
  "LightweightBrain_init =
     \<lparr>lw_consecutive_failures = 0, lw_max_failures_before_fallback = 1\<rparr>"

definition quick_decisions :: "(string \<times> plan) list" where
  "quick_decisions =
     [(''enemy_detected'', [(''action'', JStr ''VATS''), (''duration'', JNum 0.1),
                            (''reason'', JStr ''engage_target'')]),
      (''loot_nearby'', [(''action'', JStr ''INTERACT''), (''duration'', JNum 0.5),
                         (''reason'', JStr ''collect_loot'')]),
      (''health_low'', [(''action'', JStr ''BACKWARD''), (''duration'', JNum 2.0),
                        (''reason'', JStr ''seek_safety'')]),
      (''exploring'', [(''action'', JStr ''FORWARD''), (''duration'', JNum 2.0),
                       (''reason'', JStr ''continue_exploration'')]),
      (''stuck'', [(''action'', JStr ''BACKWARD''), (''duration'', JNum 1.0),
                   (''reason'', JStr ''unstuck'')])]"

datatype py_error = KeyError | NameError | UnboundLocalError | ValueError | OSError

definition get_quick_decision :: "string \<Rightarrow> py_error + plan" where
  "get_quick_decision situation_type =
     (case map_of quick_decisions situation_type of
        Some decision \<Rightarrow> Inr (AList.update ''source'' (JStr ''template'') decision)
      | None \<Rightarrow>
          (case map_of quick_decisions ''exploring'' of
             Some decision \<Rightarrow> Inr decision
           | None \<Rightarrow> Inl KeyError))"

text \<open>
  The model server is a function from the prompt of the request to what the request
  yields: \<open>LwFailed\<close> when \<open>requests.post\<close>, \<open>raise_for_status\<close> or \<open>response.json\<close> raises,
  \<open>LwResponse t\<close> when \<open>response.json().get('response', '')\<close> is \<open>t\<close>. The result of
  \<open>get_plan\<close> carries the list of prompts that were sent, so that a call that does not
  contact the server is one whose list is empty.
\<close>

datatype lw_reply = LwFailed | LwResponse string

definition lightweight_payload_prompt :: "string \<Rightarrow> string" where
  \<open>lightweight_payload_prompt prompt =
     ''Quick Fallout 76 action for: '' @ take 200 prompt
       @ ''. JSON only: {"action":"FORWARD","duration":2.0,"reason":"brief"}''\<close>

definition LightweightBrain_get_plan ::
  "(string \<Rightarrow> lw_reply) \<Rightarrow> (string \<Rightarrow> plan option) \<Rightarrow> LightweightBrain \<Rightarrow> string
     \<Rightarrow> (py_error + plan) \<times> LightweightBrain \<times> string list" where
  "LightweightBrain_get_plan server loads self prompt =
     (let prompt_lower = lower prompt
      in if sublist ''enemy'' prompt_lower \<or> sublist ''person'' prompt_lower
         then (get_quick_decision ''enemy_detected'', self, [])
         else if sublist ''loot'' prompt_lower \<or> sublist ''container'' prompt_lower
         then (get_quick_decision ''loot_nearby'', self, [])
         else if sublist ''health'' prompt_lower \<and> sublist ''low'' prompt_lower
         then (get_quick_decision ''health_low'', self, [])
         else if sublist ''stuck'' prompt_lower
         then (get_quick_decision ''stuck'', self, [])
         else if lw_consecutive_failures self \<ge> lw_max_failures_before_fallback self
         then (get_quick_decision ''exploring'', self, [])
         else
           (let sent = lightweight_payload_prompt prompt;
                failed = self\<lparr>lw_consecutive_failures := lw_consecutive_failures self + 1\<rparr>
            in case server sent of
                 LwFailed \<Rightarrow> (get_quick_decision ''exploring'', failed, [sent])
               | LwResponse result_text \<Rightarrow>
                   (case search_braces result_text of
                      None \<Rightarrow> (get_quick_decision ''exploring'', self, [sent])
                    | Some json_str \<Rightarrow>
                        (case loads json_str of
                           None \<Rightarrow> (get_quick_decision ''exploring'', failed, [sent])
                         | Some plan \<Rightarrow>
                             (Inr (AList.update ''source'' (JStr ''lightweight_ai'') plan),
                              self\<lparr>lw_consecutive_failures := 0\<rparr>, [sent])))))"

section \<open>FastDecisionMaker (main\_bot\_enhanced.py)\<close>

text \<open>
  A detected object and the game state are dicts read with \<open>get\<close>: a field is \<open>None\<close> when
  the key is absent, and the default of the \<open>get\<close> applies.
\<close>

record detected_object =
  obj_label :: "string option"
  obj_position :: "string option"
  obj_size :: "string option"

record game_state =
  detected_objects :: "detected_object list option"
  health :: "rat option"

definition survival_reflexes :: "(string \<times> plan) list" where
  "survival_reflexes =
     [(''enemy_close_health_low'', [(''action'', JStr ''BACKWARD''), (''duration'', JNum 3.0),
                                    (''reason'', JStr ''retreat_survival'')]),
      (''enemy_detected_healthy'', [(''action'', JStr ''VATS''), (''duration'', JNum 0.1),
                                    (''reason'', JStr ''engage_enemy'')]),
      (''loot_safe_nearby'', [(''action'', JStr ''INTERACT''), (''duration'', JNum 0.5),
                              (''reason'', JStr ''collect_loot'')]),
      (''stuck_detected'', [(''action'', JStr ''BACKWARD''), (''duration'', JNum 1.0),
                            (''reason'', JStr ''unstuck_maneuver'')]),
      (''path_clear_exploring'', [(''action'', JStr ''FORWARD''), (''duration'', JNum 2.0),
                                  (''reason'', JStr ''continue_exploration'')])]"

definition label_has :: "string \<Rightarrow> detected_object \<Rightarrow> bool" where
  \<comment> \<open>\<open>word in obj.get('label', '').lower()\<close>\<close>
  "label_has word obj =
     sublist word (lower (case obj_label obj of None \<Rightarrow> [] | Some l \<Rightarrow> l))"

definition has_enemy :: "game_state \<Rightarrow> bool" where
  "has_enemy gs =
     list_ex (label_has ''person'') (case detected_objects gs of None \<Rightarrow> [] | Some os \<Rightarrow> os)"

definition has_loot :: "game_state \<Rightarrow> bool" where
  "has_loot gs =
     list_ex (label_has ''container'')
       (case detected_objects gs of None \<Rightarrow> [] | Some os \<Rightarrow> os)"

definition health_of :: "game_state \<Rightarrow> rat" where
  \<comment> \<open>\<open>game_state.get('health', 100)\<close>\<close>
  "health_of gs = (case health gs of None \<Rightarrow> 100 | Some h \<Rightarrow> h)"

definition check_instant_response :: "game_state \<Rightarrow> string list \<Rightarrow> (py_error + plan) option" where
  \<comment> \<open>\<open>None\<close> is Python's \<open>None\<close>; a lookup in \<open>survival_reflexes\<close> raises \<open>KeyError\<close>
      on a missing key\<close>
  "check_instant_response gs active_goals =
     (let reflex = (\<lambda>k. case map_of survival_reflexes k of
                           None \<Rightarrow> Inl KeyError | Some p \<Rightarrow> Inr p)
      in if has_enemy gs \<and> health_of gs < 30
         then Some (reflex ''enemy_close_health_low'')
         else if has_enemy gs \<and> health_of gs > 60
         then Some (reflex ''enemy_detected_healthy'')
         else if has_loot gs \<and> \<not> has_enemy gs \<and> ''manage_inventory'' \<in> set active_goals
         then Some (reflex ''loot_safe_nearby'')
         else if ''explore'' \<in> set active_goals \<and> \<not> has_enemy gs
         then Some (reflex ''path_clear_exploring'')
         else None)"

section \<open>GoalManager (comprehensive\_fo76\_ai.py)\<close>

text \<open>
  Of the fields of the dataclass \<open>AIGoal\<close> the model keeps those that goal selection
  reads. \<open>weight_threshold\<close> is the entry of that name in the dict \<open>conditions\<close>, \<open>None\<close>
  when the dict has no such key. The registry \<open>goals\<close> is a dict in insertion order.
\<close>

record AIGoal =
  goal_id :: string
  goal_name :: string
  enabled :: bool
  priority :: int
  weight_threshold :: "rat option"

record GoalManager =
  goals :: "(string \<times> AIGoal) list"
  active_goals :: "string list"

record ai_context =
  public_event_active :: "bool option"
  weight_ratio :: "rat option"
  at_water :: "bool option"
  multiple_threats :: "bool option"
  unknown_location :: "bool option"
  inventory_full :: "bool option"
  low_resources :: "bool option"

definition flag :: "bool option \<Rightarrow> bool" where
  \<comment> \<open>\<open>context.get(key, False)\<close>\<close>
  "flag v = (case v of None \<Rightarrow> False | Some b \<Rightarrow> b)"

definition default_goals :: "AIGoal list" where
  "default_goals =
     [\<lparr>goal_id = ''do_public_events'', goal_name = ''Participate in Public Events'',
       enabled = False, priority = 8, weight_threshold = None\<rparr>,
      \<lparr>goal_id = ''manage_inventory'', goal_name = ''Smart Inventory Management'',
       enabled = False, priority = 5, weight_threshold = Some 0.8\<rparr>,
      \<lparr>goal_id = ''fishing'', goal_name = ''Fishing Activities'',
       enabled = False, priority = 3, weight_threshold = None\<rparr>,
      \<lparr>goal_id = ''daily_challenges'', goal_name = ''Complete Daily Challenges'',
       enabled = False, priority = 6, weight_threshold = None\<rparr>,
      \<lparr>goal_id = ''vendor_rounds'', goal_name = ''Vendor Shopping Rounds'',
       enabled = False, priority = 4, weight_threshold = None\<rparr>,
      \<lparr>goal_id = ''resource_farming'', goal_name = ''Resource Collection'',
       enabled = False, priority = 2, weight_threshold = None\<rparr>,
      \<lparr>goal_id = ''camp_maintenance'', goal_name = ''C.A.M.P. Maintenance'',
       enabled = False, priority = 1, weight_threshold = None\<rparr>,
      \<lparr>goal_id = ''explore_and_map'', goal_name = ''Exploration & Mapping'',
       enabled = True, priority = 1, weight_threshold = None\<rparr>]"

definition create_default_goals :: GoalManager where
  \<comment> \<open>\<open>__init__\<close> followed by \<open>_create_default_goals\<close>\<close>
  "create_default_goals =
     fold (\<lambda>goal self.
             (let self1 = self\<lparr>goals := AList.update (goal_id goal) goal (goals self)\<rparr>
              in if enabled goal
                 then self1\<lparr>active_goals := active_goals self1 @ [goal_id goal]\<rparr>
                 else self1))
       default_goals \<lparr>goals = [], active_goals = []\<rparr>"

definition set_goal_enabled :: "GoalManager \<Rightarrow> string \<Rightarrow> bool \<Rightarrow> GoalManager" where
  "set_goal_enabled self gid en =
     (case map_of (goals self) gid of
        None \<Rightarrow> self
      | Some goal \<Rightarrow>
          (let self1 = self\<lparr>goals := AList.update gid (goal\<lparr>enabled := en\<rparr>) (goals self)\<rparr>
           in if en \<and> gid \<notin> set (active_goals self1)
              then self1\<lparr>active_goals := active_goals self1 @ [gid]\<rparr>
              else if \<not> en \<and> gid \<in> set (active_goals self1)
              then self1\<lparr>active_goals := remove1 gid (active_goals self1)\<rparr>
              else self1))"

definition goal_conditions_met :: "AIGoal \<Rightarrow> ai_context \<Rightarrow> py_error + bool" where
  "goal_conditions_met goal ctx =
     (if goal_id goal = ''do_public_events'' then Inr (flag (public_event_active ctx))
      else if goal_id goal = ''manage_inventory''
      then (case weight_threshold goal of
              None \<Rightarrow> Inl KeyError
            | Some t \<Rightarrow> Inr ((case weight_ratio ctx of None \<Rightarrow> 0 | Some w \<Rightarrow> w) \<ge> t))
      else if goal_id goal = ''fishing''
      then Inr (\<not> flag (public_event_active ctx) \<and> flag (at_water ctx))
      else Inr True)"

fun eligible_goals :: "(string \<times> AIGoal) list \<Rightarrow> ai_context \<Rightarrow> string list \<Rightarrow> py_error + AIGoal list" where
  \<comment> \<open>the loop over \<open>self.active_goals\<close>\<close>
  "eligible_goals gs ctx [] = Inr []"
| "eligible_goals gs ctx (gid # rest) =
     (case map_of gs gid of
        None \<Rightarrow> Inl KeyError
      | Some goal \<Rightarrow>
          (case goal_conditions_met goal ctx of
             Inl e \<Rightarrow> Inl e
           | Inr met \<Rightarrow>
               (case eligible_goals gs ctx rest of
                  Inl e \<Rightarrow> Inl e
                | Inr found \<Rightarrow> Inr (if met then goal # found else found))))"

definition sort_by_priority_reverse :: "AIGoal list \<Rightarrow> AIGoal list" where
  \<comment> \<open>\<open>sort(key=lambda g: g.priority, reverse=True)\<close>: a stable sort, so goals of equal
      priority keep the order they had\<close>
  "sort_by_priority_reverse gs = sort_key (\<lambda>g. - priority g) gs"

definition get_highest_priority_goal :: "GoalManager \<Rightarrow> ai_context \<Rightarrow> py_error + AIGoal option" where
  "get_highest_priority_goal self current_context =
     (case eligible_goals (goals self) current_context (active_goals self) of
        Inl e \<Rightarrow> Inl e
      | Inr eligible \<Rightarrow>
          (case sort_by_priority_reverse eligible of
             [] \<Rightarrow> Inr None
           | g # _ \<Rightarrow> Inr (Some g)))"

definition decision_goal :: "GoalManager \<Rightarrow> ai_context \<Rightarrow> py_error + AIGoal" where
  \<comment> \<open>the goal that \<open>ComprehensiveAI.make_intelligent_decision\<close> decides for: the
      selected goal, or the registry entry \<open>explore_and_map\<close> when none was selected\<close>
  "decision_goal goal_manager current_context =
     (case get_highest_priority_goal goal_manager current_context of
        Inl e \<Rightarrow> Inl e
      | Inr (Some current_goal) \<Rightarrow> Inr current_goal
      | Inr None \<Rightarrow>
          (case map_of (goals goal_manager) ''explore_and_map'' of
             None \<Rightarrow> Inl KeyError
           | Some g \<Rightarrow> Inr g))"

definition run_set_goal_enabled :: "(string \<times> bool) list \<Rightarrow> GoalManager" where
  \<comment> \<open>a fresh registry after a sequence of \<open>set_goal_enabled\<close> calls\<close>
  "run_set_goal_enabled calls =
     fold (\<lambda>(gid, en) self. set_goal_enabled self gid en) calls create_default_goals"

section \<open>GoalManager (main\_bot\_enhanced.py)\<close>

fun max_key :: "('a \<Rightarrow> int) \<Rightarrow> 'a \<Rightarrow> 'a list \<Rightarrow> 'a" where
  \<comment> \<open>\<open>max(iterable, key=f)\<close> with the running maximum \<open>m\<close>: a later item replaces it
      only when its key is strictly greater\<close>
  "max_key f m [] = m"
| "max_key f m (x # xs) = max_key f (if f x > f m then x else m) xs"

definition enhanced_get_highest_priority_goal :: "(string \<times> AIGoal) list \<Rightarrow> AIGoal option" where
  "enhanced_get_highest_priority_goal gs =
     (case filter enabled (map snd gs) of
        [] \<Rightarrow> None
      | g # active \<Rightarrow> Some (max_key priority g active))"

section \<open>Floating-point numbers\<close>

text \<open>
  A Python \<open>float\<close> is an IEEE 754 binary64 number, modelled by the rational it denotes.
  \<open>to_double\<close> rounds a rational to the nearest binary64 number, ties to the even
  significand: with \<open>2 ^ e \<le> \<bar>x\<bar> < 2 ^ (e + 1)\<close> the spacing of the numbers around \<open>x\<close> is
  \<open>2 ^ (e - 52)\<close>. This is the rounding of the normal range, where all numbers of this
  program lie (zero, and magnitudes from 0.2 up to the seconds of \<open>time.time()\<close>). A float
  literal denotes the rounded decimal, and an addition or subtraction the rounded exact
  result.
\<close>

definition round_half_even :: "rat \<Rightarrow> int" where
  "round_half_even q =
     (let n = \<lfloor>q\<rfloor>; d = q - of_int n
      in if d < 1 / 2 then n else if 1 / 2 < d then n + 1 else if even n then n else n + 1)"

fun binade :: "nat \<Rightarrow> rat \<Rightarrow> int" where
  \<comment> \<open>for \<open>x > 0\<close> the \<open>e\<close> with \<open>2 ^ e \<le> x < 2 ^ (e + 1)\<close>, found in at most \<open>fuel\<close> steps\<close>
  "binade 0 x = 0"
| "binade (Suc fuel) x =
     (if x < 1 then binade fuel (2 * x) - 1
      else if 2 \<le> x then binade fuel (x / 2) + 1
      else 0)"

definition pow2 :: "int \<Rightarrow> rat" where
  "pow2 e = (if 0 \<le> e then 2 ^ nat e else 1 / 2 ^ nat (- e))"

definition to_double :: "rat \<Rightarrow> rat" where
  "to_double x =
     (if x = 0 then 0
      else (let ulp = pow2 (binade 1100 \<bar>x\<bar> - 52)
            in sgn x * of_int (round_half_even (\<bar>x\<bar> / ulp)) * ulp))"

definition float_lit :: "rat \<Rightarrow> rat" where
  \<comment> \<open>the float that a decimal literal denotes\<close>
  "float_lit q = to_double q"

definition fadd :: "rat \<Rightarrow> rat \<Rightarrow> rat" where
  "fadd a b = to_double (a + b)"

definition fsub :: "rat \<Rightarrow> rat \<Rightarrow> rat" where
  "fsub a b = to_double (a - b)"

section \<open>IntelligentDecisionMaker (comprehensive\_fo76\_ai.py)\<close>

record IntelligentDecisionMaker =
  remote_available :: bool
  complex_decision_threshold :: rat
  last_remote_call :: rat
  remote_call_cooldown :: rat
  is_openhermes :: bool

text \<open>
  \<open>_test_kobold_connection\<close> calls \<open>requests.get\<close>, and the module has no import of
  \<open>requests\<close>. \<open>requests_bound\<close> says whether the global name is bound when the method
  runs; in the module as it is, it is not. Reading the unbound name raises \<open>NameError\<close>
  in the \<open>try\<close> block, and reading it again in the \<open>except\<close> clause, which names
  \<open>requests.exceptions.RequestException\<close>, raises \<open>NameError\<close> out of the method.
  With the name bound, the request yields status 200 with the model name
  \<open>model_info.get('result', 'Unknown model')\<close>, another status, or a request exception.
\<close>

datatype connection = Connected string | BadStatus nat | ConnectionFailed

definition test_kobold_connection ::
  "bool \<Rightarrow> connection \<Rightarrow> IntelligentDecisionMaker \<Rightarrow> py_error + IntelligentDecisionMaker" where
  "test_kobold_connection requests_bound conn self =
     (if \<not> requests_bound then Inl NameError
      else
        (case conn of
           Connected model_name \<Rightarrow>
             (let self1 =
                    (if sublist ''openhermes'' (lower model_name)
                        \<or> sublist ''hermes'' (lower model_name)
                     then self\<lparr>is_openhermes := True,
                               complex_decision_threshold := float_lit 0.6,
                               remote_call_cooldown := 30\<rparr>
                     else self\<lparr>is_openhermes := False\<rparr>)
              in Inr (self1\<lparr>remote_available := True\<rparr>))
         | BadStatus code \<Rightarrow> Inr (self\<lparr>remote_available := False, is_openhermes := False\<rparr>)
         | ConnectionFailed \<Rightarrow>
             Inr (self\<lparr>remote_available := False, is_openhermes := False\<rparr>)))"

definition IntelligentDecisionMaker_init ::
  "bool \<Rightarrow> connection \<Rightarrow> py_error + IntelligentDecisionMaker" where
  \<comment> \<open>\<open>__init__\<close> in statement order: the connection test runs before the thresholds are
      assigned, and an exception it raises leaves \<open>__init__\<close>. An attribute that has not
      been assigned yet is written 0 here; each one is assigned before \<open>__init__\<close>
      returns.\<close>
  "IntelligentDecisionMaker_init requests_bound conn =
     (let self0 = \<lparr>remote_available = False, complex_decision_threshold = 0,
                   last_remote_call = 0, remote_call_cooldown = 0, is_openhermes = False\<rparr>
      in case test_kobold_connection requests_bound conn self0 of
           Inl err \<Rightarrow> Inl err
         | Inr self1 \<Rightarrow>
             (let self2 = self1\<lparr>complex_decision_threshold := float_lit 0.7\<rparr>;
                  self3 = self2\<lparr>last_remote_call := 0\<rparr>;
                  self4 = self3\<lparr>remote_call_cooldown := 60\<rparr>
              in Inr (self4\<lparr>is_openhermes := False\<rparr>)))"

definition calculate_complexity :: "ai_context \<Rightarrow> AIGoal \<Rightarrow> rat" where
  "calculate_complexity ctx goal =
     (let complexity0 = float_lit 0.0;
          complexity1 =
            (if goal_id goal = ''do_public_events'' then fadd complexity0 (float_lit 0.6)
             else if goal_id goal = ''manage_inventory'' then fadd complexity0 (float_lit 0.4)
             else if goal_id goal = ''fishing'' then fadd complexity0 (float_lit 0.2)
             else complexity0);
          complexity2 =
            (if flag (multiple_threats ctx) then fadd complexity1 (float_lit 0.3)
             else complexity1);
          complexity3 =
            (if flag (unknown_location ctx) then fadd complexity2 (float_lit 0.2)
             else complexity2);
          complexity4 =
            (if flag (inventory_full ctx) then fadd complexity3 (float_lit 0.2)
             else complexity3);
          complexity5 =
            (if flag (low_resources ctx) then fadd complexity4 (float_lit 0.2)
             else complexity4)
      in min complexity5 (float_lit 1.0))"

datatype tier = Strategic | Routine

definition make_decision :: "IntelligentDecisionMaker \<Rightarrow> ai_context \<Rightarrow> AIGoal \<Rightarrow> rat \<Rightarrow> tier" where
  \<comment> \<open>which of \<open>_strategic_decision_kobold\<close> and \<open>_routine_decision\<close> the call goes to;
      \<open>now\<close> is \<open>time.time()\<close>\<close>
  "make_decision self ctx goal now =
     (let complexity = calculate_complexity ctx goal
      in if complexity \<ge> complex_decision_threshold self
            \<and> remote_available self
            \<and> fsub now (last_remote_call self) \<ge> remote_call_cooldown self
         then Strategic
         else Routine)"

section \<open>ActionController (input\_emulator.py)\<close>

datatype key = KEY_W | KEY_S | KEY_A | KEY_D | KEY_SPACE | KEY_LEFTSHIFT | KEY_E | KEY_R
  | KEY_Q | BTN_LEFT | BTN_RIGHT | KEY_M | KEY_TAB | KEY_ESC | KEY_ENTER | KEY_C | KEY_I
  | KEY_F | KEY_LEFTCTRL

definition ACTION_TO_KEY :: "(string \<times> key) list" where
  "ACTION_TO_KEY =
     [(''FORWARD'', KEY_W), (''BACKWARD'', KEY_S), (''STRAFE_LEFT'', KEY_A),
      (''STRAFE_RIGHT'', KEY_D), (''JUMP'', KEY_SPACE), (''SPRINT'', KEY_LEFTSHIFT),
      (''INTERACT'', KEY_E), (''RELOAD'', KEY_R),
      (''VATS'', KEY_Q), (''ATTACK'', BTN_LEFT), (''AIM'', BTN_RIGHT),
      (''M'', KEY_M), (''TAB'', KEY_TAB), (''ESC'', KEY_ESC), (''ENTER'', KEY_ENTER),
      (''C'', KEY_C), (''I'', KEY_I), (''F'', KEY_F), (''CTRL'', KEY_LEFTCTRL)]"

text \<open>
  The input device is a state of any type \<open>'d\<close> with the two operations the controller
  calls. An operation returns whether it succeeded (\<open>False\<close>: it raised) and the state it
  left the device in. Console output is not part of the model.
\<close>

record 'd uinput =
  dev_write :: "'d \<Rightarrow> key \<Rightarrow> int \<Rightarrow> bool \<times> 'd"
  dev_syn :: "'d \<Rightarrow> bool \<times> 'd"

text \<open>
  The \<open>try\<close> block of \<open>press\<close>. Its first statement reads \<open>e.EV_KEY\<close> to build the
  arguments of the first write, and \<open>e\<close> is a local name of \<open>press\<close>: the clause
  \<open>except Exception as e\<close> binds it, which hides the module's \<open>ecodes as e\<close> in the whole
  function. \<open>e_bound\<close> says whether the local name has a value when the block starts.
  The block yields the exception it raises, if any, and the state of the device.
  \<open>time.sleep\<close> raises on a negative duration.
\<close>

definition press_try ::
  "'d uinput \<Rightarrow> 'd \<Rightarrow> key \<Rightarrow> rat \<Rightarrow> bool \<Rightarrow> py_error option \<times> 'd" where
  "press_try ops device key_code duration e_bound =
     (if \<not> e_bound then (Some UnboundLocalError, device)
      else
        (case dev_write ops device key_code 1 of
           (False, d1) \<Rightarrow> (Some OSError, d1)
         | (True, d1) \<Rightarrow>
             (case dev_syn ops d1 of
                (False, d2) \<Rightarrow> (Some OSError, d2)
              | (True, d2) \<Rightarrow>
                  if duration < 0 then (Some ValueError, d2)
                  else
                    (case dev_write ops d2 key_code 0 of
                       (False, d3) \<Rightarrow> (Some OSError, d3)
                     | (True, d3) \<Rightarrow>
                         (case dev_syn ops d3 of
                            (False, d4) \<Rightarrow> (Some OSError, d4)
                          | (True, d4) \<Rightarrow> (None, d4))))))"

definition press :: "'d uinput \<Rightarrow> 'd \<Rightarrow> string \<Rightarrow> rat \<Rightarrow> bool \<times> 'd" where
  \<comment> \<open>the \<open>try\<close> block is entered with the local \<open>e\<close> unbound; the handler turns any
      exception into the result \<open>False\<close>\<close>
  "press ops device action_name duration =
     (let action_name = upper action_name
      in case map_of ACTION_TO_KEY action_name of
           None \<Rightarrow> (False, device)
         | Some key_code \<Rightarrow>
             (case press_try ops device key_code duration False of
                (Some err, d) \<Rightarrow> (False, d)
              | (None, d) \<Rightarrow> (True, d)))"

datatype input_event = EvKey key int | EvSyn

definition recording_device :: "input_event list uinput" where
  \<comment> \<open>a device that accepts every event and keeps the list of what was written\<close>
  "recording_device =
     \<lparr>dev_write = (\<lambda>d k v. (True, d @ [EvKey k v])), dev_syn = (\<lambda>d. (True, d @ [EvSyn]))\<rparr>"

section \<open>Specification-side notions\<close>

definition first_max :: "('a \<Rightarrow> int) \<Rightarrow> 'a list \<Rightarrow> 'a option" where
  \<comment> \<open>the first item of the list among those whose key is the greatest\<close>
  "first_max f xs = find (\<lambda>g. list_all (\<lambda>h. f h \<le> f g) xs) xs"

definition spec_highest_priority_goal :: "GoalManager \<Rightarrow> ai_context \<Rightarrow> AIGoal option" where
  \<comment> \<open>the selection in the words of the specification: among the goals that are enabled
      and whose conditions are met, the one of highest priority, the earliest in the
      registry winning a tie\<close>
  "spec_highest_priority_goal self ctx =
     first_max priority
       (filter (\<lambda>g. enabled g \<and> goal_conditions_met g ctx = Inr True) (map snd (goals self)))"

definition first_to_last_brace :: "string \<Rightarrow> string" where
  \<comment> \<open>the extraction in the words of the specification: the substring from the first
      \<open>{\<close> to the last \<open>}\<close> of the text\<close>
  "first_to_last_brace text =
     (let i = length (takeWhile (\<lambda>c. c \<noteq> CHR ''{'') text);
          j = length text - length (takeWhile (\<lambda>c. c \<noteq> CHR ''}'') (rev text))
      in take (j - i) (drop i text))"

definition weighted_sum :: "ai_context \<Rightarrow> AIGoal \<Rightarrow> rat" where
  \<comment> \<open>the score in the words of the specification, in exact arithmetic: the base weight
      of the goal plus the weight of each flag that the context sets, before the clamp\<close>
  "weighted_sum ctx goal =
     (if goal_id goal = ''do_public_events'' then 6 / 10
      else if goal_id goal = ''manage_inventory'' then 4 / 10
      else if goal_id goal = ''fishing'' then 2 / 10
      else 0)
     + (if multiple_threats ctx = Some True then 3 / 10 else 0)
     + (if unknown_location ctx = Some True then 2 / 10 else 0)
     + (if inventory_full ctx = Some True then 2 / 10 else 0)
     + (if low_resources ctx = Some True then 2 / 10 else 0)"

definition complexity_from :: "rat \<Rightarrow> bool \<Rightarrow> bool \<Rightarrow> bool \<Rightarrow> bool \<Rightarrow> rat" where
  \<comment> \<open>the steps of \<open>_calculate_complexity\<close> behind the goal's base weight, as a function
      of the four tests\<close>
  "complexity_from c1 b2 b3 b4 b5 =
     (let c2 = (if b2 then fadd c1 (float_lit 0.3) else c1);
          c3 = (if b3 then fadd c2 (float_lit 0.2) else c2);
          c4 = (if b4 then fadd c3 (float_lit 0.2) else c3);
          c5 = (if b5 then fadd c4 (float_lit 0.2) else c4)
      in min c5 (float_lit 1.0))"

definition complexity_close :: "rat \<Rightarrow> rat \<Rightarrow> bool \<Rightarrow> bool \<Rightarrow> bool \<Rightarrow> bool \<Rightarrow> bool" where
  \<comment> \<open>what is checked of each of the 64 cases: \<open>c1\<close> is the float base weight and \<open>w\<close>
      the exact one\<close>
  "complexity_close c1 w b2 b3 b4 b5 =
     (let r = complexity_from c1 b2 b3 b4 b5;
          s = w + (if b2 then 3 / 10 else 0) + (if b3 then 2 / 10 else 0)
                + (if b4 then 2 / 10 else 0) + (if b5 then 2 / 10 else 0)
      in 0 \<le> r \<and> r \<le> 1 \<and> \<bar>r - min s 1\<bar> \<le> 1 / 2 ^ 53
         \<and> (r = 1) = (1 \<le> s)
         \<and> (float_lit 0.7 \<le> r) = (7 / 10 \<le> s)
         \<and> (float_lit 0.6 \<le> r) = (6 / 10 \<le> s))"

text \<open>
  What holds of the registry after \<open>__init__\<close> and after every \<open>set_goal_enabled\<close>: a goal
  is stored under its own id, the inventory goal keeps its weight threshold, the
  exploration goal is registered, and \<open>active_goals\<close> lists, without repetition, the ids
  of the enabled goals.
\<close>

definition registry_ok :: "GoalManager \<Rightarrow> bool" where
  "registry_ok self \<longleftrightarrow>
     (\<forall>k g. map_of (goals self) k = Some g \<longrightarrow>
        goal_id g = k \<and> (k = ''manage_inventory'' \<longrightarrow> weight_threshold g = Some 0.8))
     \<and> map_of (goals self) ''explore_and_map'' \<noteq> None
     \<and> distinct (active_goals self)
     \<and> (\<forall>k. k \<in> set (active_goals self) \<longleftrightarrow> (\<exists>g. map_of (goals self) k = Some g \<and> enabled g))"

section \<open>The JSON codec at the texts of the examples\<close>

text \<open>
  The examples below need \<open>json.loads\<close> and \<open>json.dumps\<close> at concrete texts.
  \<open>loads_example\<close> is \<open>json.loads\<close> on the three object texts listed, each with the dict
  Python returns for it (the escape \<open>u007d\<close> behind a backslash is the character \<open>}\<close>). It
  answers \<open>None\<close>, a decode error, on any other text; the examples apply it to no other
  text than these three and texts that are not JSON. \<open>dumps_example\<close> is \<open>json.dumps\<close> on
  the two plans listed.
\<close>

definition loads_example :: "string \<Rightarrow> plan option" where
  \<open>loads_example s =
     (if s = ''{"action": "TAB"}'' then Some [(''action'', JStr ''TAB'')]
      else if s = ''{"action": "TAB", "duration": 1.0, "reason": "AI decision"}''
      then Some [(''action'', JStr ''TAB''), (''duration'', JNum 1.0),
                 (''reason'', JStr ''AI decision'')]
      else if s = ''{"action": "WAIT", "reason": "a'' @ [CHR 0x5C] @ ''u007db"}''
      then Some [(''action'', JStr ''WAIT''), (''reason'', JStr ''a}b'')]
      else None)\<close>

definition dumps_example :: "plan \<Rightarrow> string" where
  \<open>dumps_example p =
     (if p = [(''action'', JStr ''TAB''), (''duration'', JNum 1.0),
              (''reason'', JStr ''AI decision'')]
      then ''{"action": "TAB", "duration": 1.0, "reason": "AI decision"}''
      else if p = [(''action'', JStr ''WAIT''), (''reason'', JStr ''a}b''),
                   (''duration'', JNum 1.0)]
      then ''{"action": "WAIT", "reason": "a}b", "duration": 1.0}''
      else [])\<close>

section \<open>Properties of LocalBrain\<close>

lemma generate_smart_fallback_plan_cases:
  "generate_smart_fallback_plan prompt \<in>
     {combat_fallback_plan, orientation_fallback_plan, investigation_fallback_plan,
      exploration_fallback_plan, default_fallback_plan}"
  by (simp add: generate_smart_fallback_plan_def Let_def)

lemma fallback_plans_well_formed:
  "well_formed_plan combat_fallback_plan"
  "well_formed_plan orientation_fallback_plan"
  "well_formed_plan investigation_fallback_plan"
  "well_formed_plan exploration_fallback_plan"
  "well_formed_plan default_fallback_plan"
  by (simp_all add: well_formed_plan_def has_key_def combat_fallback_plan_def
      orientation_fallback_plan_def investigation_fallback_plan_def
      exploration_fallback_plan_def default_fallback_plan_def)

lemma generate_smart_fallback_plan_well_formed:
  "well_formed_plan (generate_smart_fallback_plan prompt)"
  using generate_smart_fallback_plan_cases [of prompt] fallback_plans_well_formed
  by auto

lemma wf_if:
  "well_formed_plan a \<Longrightarrow> well_formed_plan b \<Longrightarrow> well_formed_plan (if c then a else b)"
  by simp

lemma wf_literal:
  "map_of p ''action'' \<noteq> None \<Longrightarrow> map_of p ''duration'' \<noteq> None
   \<Longrightarrow> map_of p ''reason'' \<noteq> None \<Longrightarrow> well_formed_plan p"
  by (simp add: well_formed_plan_def has_key_def)

lemma extract_action_from_text_well_formed: "well_formed_plan (extract_action_from_text t)"
  unfolding extract_action_from_text_def Let_def
  by (intro wf_if wf_literal) simp_all

lemma set_defaults_well_formed:
  "has_key ''action'' p \<Longrightarrow> well_formed_plan (set_defaults p)"
  by (auto simp add: set_defaults_def well_formed_plan_def has_key_def Let_def update_conv')

lemma extract_plan_from_response_well_formed:
  "well_formed_plan (extract_plan_from_response loads t)"
  by (simp add: extract_plan_from_response_def extract_action_from_text_well_formed
      set_defaults_well_formed split: option.splits)

text \<open>
  C1. Whatever way the request fails (\<open>RequestFailed\<close>, \<open>InvalidFormat\<close>), whatever the
  failure counter is, and also when the counter has reached its limit and no request is
  made, \<open>get_plan\<close> returns the plan of \<open>_generate_smart_fallback_plan\<close> for the prompt.
  That plan is one of five hand-coded plans, chosen by the keywords of the prompt: the
  combat plan (\<open>VATS\<close>, 0.1 s), the orientation plan (\<open>TAB\<close>, 0.1 s), the investigation plan
  (\<open>INTERACT\<close>, 1.0 s), the exploration plan (\<open>FORWARD\<close>, 2.5 s) or the default plan
  (\<open>SMOOTH_LOOK\<close>, 0.5 s), each with its action name, duration and reason. The plan
  returned for any reply \<open>r\<close> has the three fields: \<open>get_plan\<close> is a total function into
  plans, so there is no path on which it returns nothing.
\<close>

theorem LocalBrain_get_plan_fallback_total:
  "fst (LocalBrain_get_plan loads self RequestFailed prompt)
     = generate_smart_fallback_plan prompt
   \<and> fst (LocalBrain_get_plan loads self InvalidFormat prompt)
     = generate_smart_fallback_plan prompt
   \<and> fst (LocalBrain_get_plan loads
            (self\<lparr>consecutive_failures := max_failures_before_fallback self\<rparr>) r prompt)
     = generate_smart_fallback_plan prompt
   \<and> generate_smart_fallback_plan prompt =
       (if sublist ''threat'' (lower prompt) \<or> sublist ''enemy'' (lower prompt)
           \<or> sublist ''combat'' (lower prompt) \<or> sublist ''danger'' (lower prompt)
           \<or> sublist ''person'' (lower prompt)
        then [(''action'', JStr ''VATS''), (''duration'', JNum 0.1),
              (''reason'', JStr ''engage_detected_threat''),
              (''source'', JStr ''combat_fallback'')]
        else if sublist ''location unknown'' (lower prompt) \<or> sublist ''map'' (lower prompt)
           \<or> sublist ''bearings'' (lower prompt) \<or> sublist ''orient'' (lower prompt)
        then [(''action'', JStr ''TAB''), (''duration'', JNum 0.1),
              (''reason'', JStr ''check_map_for_orientation''),
              (''source'', JStr ''orientation_fallback'')]
        else if sublist ''objects'' (lower prompt) \<or> sublist ''container'' (lower prompt)
           \<or> sublist ''loot'' (lower prompt)
        then [(''action'', JStr ''INTERACT''), (''duration'', JNum 1.0),
              (''reason'', JStr ''investigate_objects''),
              (''source'', JStr ''investigation_fallback'')]
        else if sublist ''clear'' (lower prompt) \<or> sublist ''safe'' (lower prompt)
        then [(''action'', JStr ''FORWARD''), (''duration'', JNum 2.5),
              (''reason'', JStr ''continue_exploration''),
              (''source'', JStr ''exploration_fallback'')]
        else [(''action'', JStr ''SMOOTH_LOOK''), (''dx'', JNum 45), (''dy'', JNum 0),
              (''duration'', JNum 0.5), (''reason'', JStr ''assess_situation''),
              (''source'', JStr ''default_fallback'')])
   \<and> well_formed_plan (fst (LocalBrain_get_plan loads self r prompt))"
proof -
  have fb: "generate_smart_fallback_plan prompt =
       (if sublist ''threat'' (lower prompt) \<or> sublist ''enemy'' (lower prompt)
           \<or> sublist ''combat'' (lower prompt) \<or> sublist ''danger'' (lower prompt)
           \<or> sublist ''person'' (lower prompt)
        then combat_fallback_plan
        else if sublist ''location unknown'' (lower prompt) \<or> sublist ''map'' (lower prompt)
           \<or> sublist ''bearings'' (lower prompt) \<or> sublist ''orient'' (lower prompt)
        then orientation_fallback_plan
        else if sublist ''objects'' (lower prompt) \<or> sublist ''container'' (lower prompt)
           \<or> sublist ''loot'' (lower prompt)
        then investigation_fallback_plan
        else if sublist ''clear'' (lower prompt) \<or> sublist ''safe'' (lower prompt)
        then exploration_fallback_plan
        else default_fallback_plan)"
    by (simp add: generate_smart_fallback_plan_def Let_def any_in_def)
  have a: "fst (LocalBrain_get_plan loads self RequestFailed prompt)
             = generate_smart_fallback_plan prompt"
    by (simp add: LocalBrain_get_plan_def)
  have b: "fst (LocalBrain_get_plan loads self InvalidFormat prompt)
             = generate_smart_fallback_plan prompt"
    by (simp add: LocalBrain_get_plan_def)
  have c: "fst (LocalBrain_get_plan loads
            (self\<lparr>consecutive_failures := max_failures_before_fallback self\<rparr>) r prompt)
             = generate_smart_fallback_plan prompt"
    by (simp add: LocalBrain_get_plan_def)
  have d: "well_formed_plan (fst (LocalBrain_get_plan loads self r prompt))"
    by (simp add: LocalBrain_get_plan_def generate_smart_fallback_plan_well_formed
        extract_plan_from_response_well_formed Let_def split: reply.splits)
  show ?thesis
    unfolding combat_fallback_plan_def [symmetric] orientation_fallback_plan_def [symmetric]
      investigation_fallback_plan_def [symmetric] exploration_fallback_plan_def [symmetric]
      default_fallback_plan_def [symmetric]
    by (rule conjI a b c fb d)+
qed

section \<open>Properties of FastDecisionMaker\<close>

lemma reflex_lookups:
  "map_of survival_reflexes ''enemy_close_health_low'' =
     Some [(''action'', JStr ''BACKWARD''), (''duration'', JNum 3.0),
           (''reason'', JStr ''retreat_survival'')]"
  "map_of survival_reflexes ''enemy_detected_healthy'' =
     Some [(''action'', JStr ''VATS''), (''duration'', JNum 0.1),
           (''reason'', JStr ''engage_enemy'')]"
  "map_of survival_reflexes ''loot_safe_nearby'' =
     Some [(''action'', JStr ''INTERACT''), (''duration'', JNum 0.5),
           (''reason'', JStr ''collect_loot'')]"
  "map_of survival_reflexes ''path_clear_exploring'' =
     Some [(''action'', JStr ''FORWARD''), (''duration'', JNum 2.0),
           (''reason'', JStr ''continue_exploration'')]"
  by (simp_all add: survival_reflexes_def)

text \<open>
  C2, as stated, fails: with a hostile entity in view and a health of 50, which is neither
  below 30 nor above 60, \<open>check_instant_response\<close> returns \<open>None\<close>; the context is classified
  neither as enemy detected nor as anything else.
\<close>

theorem check_instant_response_enemy_detected_counterexample:
  "has_enemy
     \<lparr>detected_objects =
        Some [\<lparr>obj_label = Some ''person'', obj_position = Some ''center'',
               obj_size = Some ''large''\<rparr>,
              \<lparr>obj_label = Some ''container'', obj_position = Some ''left'',
               obj_size = Some ''small''\<rparr>],
      health = Some 50\<rparr>
   \<and> check_instant_response
     \<lparr>detected_objects =
        Some [\<lparr>obj_label = Some ''person'', obj_position = Some ''center'',
               obj_size = Some ''large''\<rparr>,
              \<lparr>obj_label = Some ''container'', obj_position = Some ''left'',
               obj_size = Some ''small''\<rparr>],
      health = Some 50\<rparr> [''manage_inventory'', ''explore'']
     = None"
  by code_simp

text \<open>
  C2, amended. With a hostile entity in view, whatever else is in view and whatever goals
  are active: a health below 30 gives the retreat reflex \<open>enemy_close_health_low\<close>, a
  health above 60 gives the engage reflex \<open>enemy_detected_healthy\<close>, a health from 30 to 60
  gives no instant response; and the result is never the loot reflex.
\<close>

theorem check_instant_response_precedence:
  assumes "has_enemy gs"
  shows "check_instant_response gs active =
           (if health_of gs < 30
            then Some (Inr [(''action'', JStr ''BACKWARD''), (''duration'', JNum 3.0),
                            (''reason'', JStr ''retreat_survival'')])
            else if health_of gs > 60
            then Some (Inr [(''action'', JStr ''VATS''), (''duration'', JNum 0.1),
                            (''reason'', JStr ''engage_enemy'')])
            else None)
         \<and> check_instant_response gs active
             \<noteq> Some (Inr [(''action'', JStr ''INTERACT''), (''duration'', JNum 0.5),
                            (''reason'', JStr ''collect_loot'')])"
  using assms by (simp add: check_instant_response_def reflex_lookups)

theorem check_instant_response_precedence_witness:
  "check_instant_response
     \<lparr>detected_objects =
        Some [\<lparr>obj_label = Some ''Person'', obj_position = Some ''center'',
               obj_size = Some ''large''\<rparr>,
              \<lparr>obj_label = Some ''container'', obj_position = Some ''left'',
               obj_size = Some ''small''\<rparr>],
      health = Some 20\<rparr> [''manage_inventory'', ''explore'']
   = Some (Inr [(''action'', JStr ''BACKWARD''), (''duration'', JNum 3.0),
                (''reason'', JStr ''retreat_survival'')])"
proof -
  have h: "has_enemy
     \<lparr>detected_objects =
        Some [\<lparr>obj_label = Some ''Person'', obj_position = Some ''center'',
               obj_size = Some ''large''\<rparr>,
              \<lparr>obj_label = Some ''container'', obj_position = Some ''left'',
               obj_size = Some ''small''\<rparr>],
      health = Some 20\<rparr>"
    by code_simp
  show ?thesis
    using check_instant_response_precedence [OF h, of "[''manage_inventory'', ''explore'']"]
    by (simp add: health_of_def)
qed

section \<open>Properties of LightweightBrain\<close>

lemma quick_lookups:
  "get_quick_decision ''enemy_detected'' =
     Inr [(''action'', JStr ''VATS''), (''duration'', JNum 0.1),
          (''reason'', JStr ''engage_target''), (''source'', JStr ''template'')]"
  "get_quick_decision ''loot_nearby'' =
     Inr [(''action'', JStr ''INTERACT''), (''duration'', JNum 0.5),
          (''reason'', JStr ''collect_loot''), (''source'', JStr ''template'')]"
  "get_quick_decision ''health_low'' =
     Inr [(''action'', JStr ''BACKWARD''), (''duration'', JNum 2.0),
          (''reason'', JStr ''seek_safety''), (''source'', JStr ''template'')]"
  "get_quick_decision ''stuck'' =
     Inr [(''action'', JStr ''BACKWARD''), (''duration'', JNum 1.0),
          (''reason'', JStr ''unstuck''), (''source'', JStr ''template'')]"
  by (simp_all add: get_quick_decision_def quick_decisions_def)

text \<open>
  C10. When the lower-cased prompt contains \<open>enemy\<close> or \<open>person\<close>, or else \<open>loot\<close> or
  \<open>container\<close>, or else both \<open>health\<close> and \<open>low\<close>, or else \<open>stuck\<close>, \<open>get_plan\<close> returns the
  template of the first of these cases that applies, tagged with the source \<open>template\<close>;
  it sends no request and leaves the failure counter as it was. The plan is therefore the
  same for any two model servers, JSON parsers and failure counters.
\<close>

theorem LightweightBrain_get_plan_template:
  assumes "sublist ''enemy'' (lower prompt) \<or> sublist ''person'' (lower prompt)
           \<or> sublist ''loot'' (lower prompt) \<or> sublist ''container'' (lower prompt)
           \<or> (sublist ''health'' (lower prompt) \<and> sublist ''low'' (lower prompt))
           \<or> sublist ''stuck'' (lower prompt)"
  shows "LightweightBrain_get_plan server loads self prompt =
           (Inr (if sublist ''enemy'' (lower prompt) \<or> sublist ''person'' (lower prompt)
                 then [(''action'', JStr ''VATS''), (''duration'', JNum 0.1),
                       (''reason'', JStr ''engage_target''), (''source'', JStr ''template'')]
                 else if sublist ''loot'' (lower prompt) \<or> sublist ''container'' (lower prompt)
                 then [(''action'', JStr ''INTERACT''), (''duration'', JNum 0.5),
                       (''reason'', JStr ''collect_loot''), (''source'', JStr ''template'')]
                 else if sublist ''health'' (lower prompt) \<and> sublist ''low'' (lower prompt)
                 then [(''action'', JStr ''BACKWARD''), (''duration'', JNum 2.0),
                       (''reason'', JStr ''seek_safety''), (''source'', JStr ''template'')]
                 else [(''action'', JStr ''BACKWARD''), (''duration'', JNum 1.0),
                       (''reason'', JStr ''unstuck''), (''source'', JStr ''template'')]),
            self, [])
         \<and> fst (LightweightBrain_get_plan server loads self prompt)
             = fst (LightweightBrain_get_plan server' loads' self' prompt)"
  using assms by (auto simp add: LightweightBrain_get_plan_def Let_def quick_lookups)

theorem LightweightBrain_get_plan_template_witness:
  "LightweightBrain_get_plan (\<lambda>p. LwFailed) (\<lambda>s. None) LightweightBrain_init
     ''A Person blocks the road''
   = (Inr [(''action'', JStr ''VATS''), (''duration'', JNum 0.1),
           (''reason'', JStr ''engage_target''), (''source'', JStr ''template'')],
      LightweightBrain_init, [])
   \<and> LightweightBrain_get_plan (\<lambda>p. LwResponse ''{}'') (\<lambda>s. Some []) LightweightBrain_init
     ''A Person blocks the road''
   = (Inr [(''action'', JStr ''VATS''), (''duration'', JNum 0.1),
           (''reason'', JStr ''engage_target''), (''source'', JStr ''template'')],
      LightweightBrain_init, [])"
proof -
  have h: "sublist ''person'' (lower ''A Person blocks the road'')"
    by code_simp
  then have hyp: "sublist ''enemy'' (lower ''A Person blocks the road'')
           \<or> sublist ''person'' (lower ''A Person blocks the road'')
           \<or> sublist ''loot'' (lower ''A Person blocks the road'')
           \<or> sublist ''container'' (lower ''A Person blocks the road'')
           \<or> (sublist ''health'' (lower ''A Person blocks the road'')
               \<and> sublist ''low'' (lower ''A Person blocks the road''))
           \<or> sublist ''stuck'' (lower ''A Person blocks the road'')"
    by blast
  show ?thesis
    using LightweightBrain_get_plan_template [OF hyp, of "\<lambda>p. LwFailed" "\<lambda>s. None" LightweightBrain_init]
      LightweightBrain_get_plan_template [OF hyp, of "\<lambda>p. LwResponse ''{}''" "\<lambda>s. Some []" LightweightBrain_init]
      h
    by simp
qed

section \<open>Properties of GoalManager\<close>

lemma find_skip: "\<forall>y\<in>set ys. \<not> P y \<Longrightarrow> find P (ys @ zs) = find P zs"
  by (induction ys) simp_all

lemma first_max_decomp:
  assumes "xs = us @ g # vs" "\<forall>u\<in>set us. f u < f g" "\<forall>v\<in>set vs. f v \<le> f g"
  shows "first_max f xs = Some g"
proof -
  let ?P = "\<lambda>g. list_all (\<lambda>h. f h \<le> f g) xs"
  have g_in: "g \<in> set xs" using assms(1) by simp
  have "\<forall>u\<in>set us. \<not> ?P u"
  proof
    fix u assume "u \<in> set us"
    with assms(2) have "\<not> f g \<le> f u" by fastforce
    with g_in show "\<not> ?P u" unfolding list_all_iff by blast
  qed
  moreover have "?P g"
    using assms by (auto simp: list_all_iff less_imp_le)
  ultimately show ?thesis
    unfolding first_max_def by (simp add: assms(1) find_skip)
qed

lemma first_max_Nil: "first_max f [] = None"
  by (simp add: first_max_def)

lemma sort_desc_hd:
  "(case sort_key (\<lambda>g. - f g) xs of [] \<Rightarrow> None | g # rest \<Rightarrow> Some g) = first_max f xs"
proof (cases "sort_key (\<lambda>g. - f g) xs")
  case Nil
  then have "xs = []"
    by (metis length_sort length_0_conv)
  with Nil show ?thesis by (simp add: first_max_Nil)
next
  case (Cons g rest)
  let ?k = "\<lambda>g. - f g"
  have "sorted (map ?k (g # rest))"
    using sorted_sort_key [of ?k xs] Cons by simp
  then have "\<forall>h\<in>set (sort_key ?k xs). f h \<le> f g"
    unfolding Cons by auto
  then have le: "\<forall>h\<in>set xs. f h \<le> f g"
    by (simp only: set_sort)
  have "filter (\<lambda>y. ?k y = ?k g) xs = filter (\<lambda>y. ?k y = ?k g) (g # rest)"
    using sort_key_stable [of ?k "?k g" xs] Cons by simp
  then have "filter (\<lambda>y. ?k y = ?k g) xs = g # filter (\<lambda>y. ?k y = ?k g) rest"
    by simp
  then obtain us vs where dec: "xs = us @ g # vs" and us: "\<forall>u\<in>set us. ?k u \<noteq> ?k g"
    unfolding filter_eq_Cons_iff by blast
  have lt: "\<forall>u\<in>set us. f u < f g"
  proof
    fix u assume u: "u \<in> set us"
    with dec le have "f u \<le> f g" by simp
    moreover from u us have "f u \<noteq> f g" by auto
    ultimately show "f u < f g" by simp
  qed
  have "\<forall>v\<in>set vs. f v \<le> f g"
    using dec le by simp
  with dec lt have "first_max f xs = Some g"
    by (rule first_max_decomp)
  with Cons show ?thesis by simp
qed

lemma max_key_first_max_gen:
  assumes "\<forall>u\<in>set pre. f u < f m" "\<forall>v\<in>set mid. f v \<le> f m"
  shows "first_max f (pre @ m # mid @ xs) = Some (max_key f m xs)"
  using assms
proof (induction xs arbitrary: pre m mid)
  case Nil
  then show ?case
    by (simp add: first_max_decomp [of _ pre m mid])
next
  case (Cons x xs)
  show ?case
  proof (cases "f x > f m")
    case True
    have "\<forall>u\<in>set (pre @ m # mid). f u < f x"
      using Cons.prems True by fastforce
    moreover have "\<forall>v\<in>set []. f v \<le> f x"
      by simp
    ultimately have "first_max f ((pre @ m # mid) @ x # [] @ xs) = Some (max_key f x xs)"
      by (rule Cons.IH)
    with True show ?thesis by simp
  next
    case False
    have "\<forall>v\<in>set (mid @ [x]). f v \<le> f m"
      using Cons.prems False by auto
    with Cons.prems(1) have "first_max f (pre @ m # (mid @ [x]) @ xs) = Some (max_key f m xs)"
      by (rule Cons.IH)
    with False show ?thesis by simp
  qed
qed

lemma max_key_first_max: "first_max f (m # xs) = Some (max_key f m xs)"
  using max_key_first_max_gen [of "[]" f m "[]" xs] by simp

lemma enhanced_first_max:
  "enhanced_get_highest_priority_goal gs = first_max priority (filter enabled (map snd gs))"
  by (simp add: enhanced_get_highest_priority_goal_def first_max_Nil max_key_first_max
      split: list.splits)

lemma get_highest_first_max:
  "eligible_goals (goals self) ctx (active_goals self) = Inr eligible
    \<Longrightarrow> get_highest_priority_goal self ctx = Inr (first_max priority eligible)"
  using sort_desc_hd [of priority eligible]
  by (simp add: get_highest_priority_goal_def sort_by_priority_reverse_def split: list.splits)

lemma create_default_goals_eq:
  "goals create_default_goals = map (\<lambda>g. (goal_id g, g)) default_goals"
  "active_goals create_default_goals = [''explore_and_map'']"
  by (simp_all add: create_default_goals_def default_goals_def Let_def)

lemma registry_ok_init: "registry_ok create_default_goals"
  unfolding registry_ok_def create_default_goals_eq
  by (auto simp add: default_goals_def split: if_splits)

lemma registry_ok_set_goal_enabled:
  assumes "registry_ok self"
  shows "registry_ok (set_goal_enabled self gid en)"
proof (cases "map_of (goals self) gid")
  case None
  with assms show ?thesis by (simp add: set_goal_enabled_def)
next
  case (Some goal)
  with assms show ?thesis
    unfolding registry_ok_def set_goal_enabled_def
    by (auto simp add: Let_def update_conv' split: if_splits)
qed

lemma goal_conditions_met_total:
  assumes "goal_id g = ''manage_inventory'' \<longrightarrow> weight_threshold g \<noteq> None"
  shows "\<exists>b. goal_conditions_met g ctx = Inr b"
  using assms by (auto simp add: goal_conditions_met_def split: option.splits)
lemma eligible_goals_filter:
  assumes "\<forall>i\<in>set ids. \<exists>g. map_of gs i = Some g
              \<and> (goal_id g = ''manage_inventory'' \<longrightarrow> weight_threshold g \<noteq> None)"
  shows "eligible_goals gs ctx ids =
           Inr (filter (\<lambda>g. goal_conditions_met g ctx = Inr True)
                  (map (\<lambda>i. the (map_of gs i)) ids))"
  using assms
proof (induction ids)
  case Nil
  then show ?case by simp
next
  case (Cons i ids)
  then obtain g where g: "map_of gs i = Some g"
      "goal_id g = ''manage_inventory'' \<longrightarrow> weight_threshold g \<noteq> None"
    by auto
  then obtain b where b: "goal_conditions_met g ctx = Inr b"
    using goal_conditions_met_total by blast
  from Cons have "eligible_goals gs ctx ids =
           Inr (filter (\<lambda>g. goal_conditions_met g ctx = Inr True)
                  (map (\<lambda>i. the (map_of gs i)) ids))"
    by simp
  with g b show ?case by simp
qed

lemma registry_ok_goal_id:
  "registry_ok self \<Longrightarrow> map_of (goals self) k = Some g \<Longrightarrow> goal_id g = k"
  unfolding registry_ok_def by blast

lemma registry_ok_threshold:
  "registry_ok self \<Longrightarrow> map_of (goals self) ''manage_inventory'' = Some g
     \<Longrightarrow> weight_threshold g = Some 0.8"
  unfolding registry_ok_def by blast

lemma registry_ok_active:
  "registry_ok self \<Longrightarrow>
     k \<in> set (active_goals self) \<longleftrightarrow> (\<exists>g. map_of (goals self) k = Some g \<and> enabled g)"
  unfolding registry_ok_def by blast

lemma registry_ok_explore:
  "registry_ok self \<Longrightarrow> \<exists>e. map_of (goals self) ''explore_and_map'' = Some e"
  unfolding registry_ok_def by blast

lemma registry_ok_lookup:
  assumes "registry_ok self" "i \<in> set (active_goals self)"
  shows "\<exists>g. map_of (goals self) i = Some g
          \<and> (goal_id g = ''manage_inventory'' \<longrightarrow> weight_threshold g \<noteq> None)"
proof -
  from assms obtain g where g: "map_of (goals self) i = Some g"
    using registry_ok_active by blast
  have "weight_threshold g \<noteq> None" if "goal_id g = ''manage_inventory''"
  proof -
    from assms(1) g have "goal_id g = i" by (rule registry_ok_goal_id)
    with that g have "map_of (goals self) ''manage_inventory'' = Some g" by simp
    with assms(1) have "weight_threshold g = Some 0.8" by (rule registry_ok_threshold)
    then show ?thesis by simp
  qed
  with g show ?thesis by blast
qed

lemma registry_ok_eligible_set:
  assumes "registry_ok self"
  shows "set (filter (\<lambda>g. goal_conditions_met g ctx = Inr True)
                  (map (\<lambda>i. the (map_of (goals self) i)) (active_goals self)))
         = {g. \<exists>k. map_of (goals self) k = Some g \<and> enabled g
                  \<and> goal_conditions_met g ctx = Inr True}"
proof -
  have "(\<lambda>i. the (map_of (goals self) i)) ` set (active_goals self)
          = {g. \<exists>k. map_of (goals self) k = Some g \<and> enabled g}"
  proof (intro set_eqI iffI)
    fix g assume "g \<in> (\<lambda>i. the (map_of (goals self) i)) ` set (active_goals self)"
    then obtain i where i: "i \<in> set (active_goals self)" "g = the (map_of (goals self) i)"
      by blast
    with assms obtain g' where "map_of (goals self) i = Some g'" "enabled g'"
      using registry_ok_active by blast
    with i show "g \<in> {g. \<exists>k. map_of (goals self) k = Some g \<and> enabled g}"
      by auto
  next
    fix g assume "g \<in> {g. \<exists>k. map_of (goals self) k = Some g \<and> enabled g}"
    then obtain k where k: "map_of (goals self) k = Some g" "enabled g"
      by blast
    with assms have "k \<in> set (active_goals self)"
      using registry_ok_active by blast
    with k show "g \<in> (\<lambda>i. the (map_of (goals self) i)) ` set (active_goals self)"
      by force
  qed
  then show ?thesis by auto
qed

lemma registry_ok_eligible_order:
  assumes "registry_ok self"
  shows "map goal_id (filter (\<lambda>g. goal_conditions_met g ctx = Inr True)
                  (map (\<lambda>i. the (map_of (goals self) i)) (active_goals self)))
         = filter (\<lambda>k. goal_conditions_met (the (map_of (goals self) k)) ctx = Inr True)
             (active_goals self)"
proof -
  have "\<forall>k\<in>set (active_goals self). goal_id (the (map_of (goals self) k)) = k"
  proof
    fix k assume "k \<in> set (active_goals self)"
    with assms obtain g where "map_of (goals self) k = Some g"
      using registry_ok_active by blast
    with assms show "goal_id (the (map_of (goals self) k)) = k"
      using registry_ok_goal_id by fastforce
  qed
  then have "map (\<lambda>k. goal_id (the (map_of (goals self) k)))
               (filter (\<lambda>k. goal_conditions_met (the (map_of (goals self) k)) ctx = Inr True)
                 (active_goals self))
             = filter (\<lambda>k. goal_conditions_met (the (map_of (goals self) k)) ctx = Inr True)
                 (active_goals self)"
    by (intro map_idI) simp
  then show ?thesis
    by (simp add: filter_map comp_def)
qed

lemma registry_ok_fold:
  "registry_ok s \<Longrightarrow>
   registry_ok (fold (\<lambda>(gid, en) self. set_goal_enabled self gid en) calls s)"
  by (induction calls arbitrary: s) (auto simp add: registry_ok_set_goal_enabled)

lemma registry_ok_run: "registry_ok (run_set_goal_enabled calls)"
  unfolding run_set_goal_enabled_def by (rule registry_ok_fold [OF registry_ok_init])

lemma registry_ok_eligible:
  assumes "registry_ok self"
  shows "eligible_goals (goals self) ctx (active_goals self) =
           Inr (filter (\<lambda>g. goal_conditions_met g ctx = Inr True)
                  (map (\<lambda>i. the (map_of (goals self) i)) (active_goals self)))"
  by (rule eligible_goals_filter) (use assms registry_ok_lookup in blast)


text \<open>
  C7, as stated, fails on the tie-break. After \<open>camp_maintenance\<close> is enabled, it and
  \<open>explore_and_map\<close> are both eligible with priority 1. \<open>camp_maintenance\<close> was registered
  first, so the selection in the words of the claim picks it; the code picks
  \<open>explore_and_map\<close>, which was enabled first.
\<close>

theorem get_highest_priority_goal_tie_counterexample:
  "get_highest_priority_goal (run_set_goal_enabled [(''camp_maintenance'', True)])
     \<lparr>public_event_active = None, weight_ratio = None, at_water = None,
      multiple_threats = None, unknown_location = None, inventory_full = None,
      low_resources = None\<rparr>
   = Inr (Some \<lparr>goal_id = ''explore_and_map'', goal_name = ''Exploration & Mapping'',
                enabled = True, priority = 1, weight_threshold = None\<rparr>)
   \<and> spec_highest_priority_goal (run_set_goal_enabled [(''camp_maintenance'', True)])
     \<lparr>public_event_active = None, weight_ratio = None, at_water = None,
      multiple_threats = None, unknown_location = None, inventory_full = None,
      low_resources = None\<rparr>
   = Some \<lparr>goal_id = ''camp_maintenance'', goal_name = ''C.A.M.P. Maintenance'',
           enabled = True, priority = 1, weight_threshold = None\<rparr>"
  by code_simp


text \<open>
  C7, amended. In every registry reached from the initial one by \<open>set_goal_enabled\<close>
  calls, and for every context, the loop of \<open>get_highest_priority_goal\<close> collects exactly
  the goals that are enabled and whose conditions are met, in the order of
  \<open>active_goals\<close>, which is the order in which they were enabled; the goal selected is
  the first of this list among those of greatest priority, and none when the list is
  empty. The selection of main\_bot\_enhanced.py is the first of the enabled goals, in
  registry order, among those of greatest priority.
\<close>

theorem get_highest_priority_goal_first_max:
  "(\<exists>eligible.
      eligible_goals (goals (run_set_goal_enabled calls)) ctx
        (active_goals (run_set_goal_enabled calls)) = Inr eligible
      \<and> set eligible =
          {g. \<exists>k. map_of (goals (run_set_goal_enabled calls)) k = Some g \<and> enabled g
                 \<and> goal_conditions_met g ctx = Inr True}
      \<and> map goal_id eligible =
          filter (\<lambda>k. goal_conditions_met
                        (the (map_of (goals (run_set_goal_enabled calls)) k)) ctx = Inr True)
            (active_goals (run_set_goal_enabled calls))
      \<and> get_highest_priority_goal (run_set_goal_enabled calls) ctx
          = Inr (first_max priority eligible))
   \<and> enhanced_get_highest_priority_goal gs
       = first_max priority (filter enabled (map snd gs))"
proof -
  let ?gm = "run_set_goal_enabled calls"
  let ?el = "filter (\<lambda>g. goal_conditions_met g ctx = Inr True)
               (map (\<lambda>i. the (map_of (goals ?gm) i)) (active_goals ?gm))"
  have ok: "registry_ok ?gm" by (rule registry_ok_run)
  have e: "eligible_goals (goals ?gm) ctx (active_goals ?gm) = Inr ?el"
    using ok by (rule registry_ok_eligible)
  moreover have "set ?el = {g. \<exists>k. map_of (goals ?gm) k = Some g \<and> enabled g
                 \<and> goal_conditions_met g ctx = Inr True}"
    using ok by (rule registry_ok_eligible_set)
  moreover have "map goal_id ?el =
          filter (\<lambda>k. goal_conditions_met (the (map_of (goals ?gm) k)) ctx = Inr True)
            (active_goals ?gm)"
    using ok by (rule registry_ok_eligible_order)
  moreover have "get_highest_priority_goal ?gm ctx = Inr (first_max priority ?el)"
    using e by (rule get_highest_first_max)
  ultimately show ?thesis
    using enhanced_first_max by blast
qed


lemma first_max_nonempty: "xs \<noteq> [] \<Longrightarrow> \<exists>g. first_max f xs = Some g"
proof -
  assume "xs \<noteq> []"
  then have "sort_key (\<lambda>g. - f g) xs \<noteq> []"
    by (metis length_sort length_0_conv)
  then obtain g rest where "sort_key (\<lambda>g. - f g) xs = g # rest"
    by (cases "sort_key (\<lambda>g. - f g) xs") auto
  then have "Some g = first_max f xs"
    using sort_desc_hd [of f xs] by simp
  then show ?thesis
    by (metis)
qed

lemma explore_enabled_selected:
  assumes "registry_ok self" "map_of (goals self) ''explore_and_map'' = Some e" "enabled e"
  shows "\<exists>g. get_highest_priority_goal self ctx = Inr (Some g)"
proof -
  let ?el = "filter (\<lambda>g. goal_conditions_met g ctx = Inr True)
               (map (\<lambda>i. the (map_of (goals self) i)) (active_goals self))"
  from assms(1,2) have "goal_id e = ''explore_and_map''"
    by (rule registry_ok_goal_id)
  then have "goal_conditions_met e ctx = Inr True"
    by (simp add: goal_conditions_met_def)
  with assms have "e \<in> set ?el"
    unfolding registry_ok_eligible_set [OF assms(1)] by blast
  then have "?el \<noteq> []"
    by (metis empty_iff empty_set)
  then obtain g where "first_max priority ?el = Some g"
    using first_max_nonempty by blast
  moreover have "get_highest_priority_goal self ctx = Inr (first_max priority ?el)"
    using registry_ok_eligible [OF assms(1)] by (rule get_highest_first_max)
  ultimately show ?thesis by simp
qed

text \<open>
  C8, as stated, fails: \<open>set_goal_enabled\<close> has no guard for the exploration goal, and one
  call disables it and removes it from \<open>active_goals\<close>.
\<close>

theorem explore_goal_disabled_counterexample:
  "map_of (goals (run_set_goal_enabled [(''explore_and_map'', False)])) ''explore_and_map''
     = Some \<lparr>goal_id = ''explore_and_map'', goal_name = ''Exploration & Mapping'',
             enabled = False, priority = 1, weight_threshold = None\<rparr>
   \<and> active_goals (run_set_goal_enabled [(''explore_and_map'', False)]) = []"
  by code_simp


text \<open>
  C8, amended. The exploration goal is enabled in the initial registry. After any sequence
  of \<open>set_goal_enabled\<close> calls it is still registered under \<open>explore_and_map\<close>, goal
  selection raises no error, and the decision step decides for the selected goal, or for
  the registered exploration goal when none is selected, whether that goal is enabled or
  not: the decision step always has a goal. While the exploration goal is enabled a goal
  is always selected (\<open>explore_enabled_selected\<close>), so the substitution acts only once
  the exploration goal has been disabled.
\<close>

theorem decision_goal_total:
  "(\<exists>e. map_of (goals create_default_goals) ''explore_and_map'' = Some e \<and> enabled e)
   \<and> (\<exists>e sel.
         map_of (goals (run_set_goal_enabled calls)) ''explore_and_map'' = Some e
         \<and> goal_id e = ''explore_and_map''
         \<and> get_highest_priority_goal (run_set_goal_enabled calls) ctx = Inr sel
         \<and> decision_goal (run_set_goal_enabled calls) ctx
             = Inr (case sel of None \<Rightarrow> e | Some g \<Rightarrow> g))"
proof -
  let ?gm = "run_set_goal_enabled calls"
  have ok: "registry_ok ?gm" by (rule registry_ok_run)
  then obtain e where e: "map_of (goals ?gm) ''explore_and_map'' = Some e"
    using registry_ok_explore by blast
  with ok have id: "goal_id e = ''explore_and_map''"
    by (rule registry_ok_goal_id)
  from ok obtain sel where sel: "get_highest_priority_goal ?gm ctx = Inr sel"
    using registry_ok_eligible get_highest_first_max by blast
  with e have "decision_goal ?gm ctx = Inr (case sel of None \<Rightarrow> e | Some g \<Rightarrow> g)"
    by (simp add: decision_goal_def split: option.splits)
  with e id sel have "\<exists>e sel.
         map_of (goals ?gm) ''explore_and_map'' = Some e
         \<and> goal_id e = ''explore_and_map''
         \<and> get_highest_priority_goal ?gm ctx = Inr sel
         \<and> decision_goal ?gm ctx = Inr (case sel of None \<Rightarrow> e | Some g \<Rightarrow> g)"
    by blast
  moreover have "\<exists>e. map_of (goals create_default_goals) ''explore_and_map'' = Some e \<and> enabled e"
    by (simp add: create_default_goals_eq default_goals_def)
  ultimately show ?thesis by blast
qed

section \<open>Properties of the JSON extraction\<close>

lemma dropWhile_skip:
  assumes "c \<notin> set pre"
  shows "dropWhile (\<lambda>x. x \<noteq> c) (pre @ c # rest) = c # rest"
proof -
  have "\<And>x. x \<in> set pre \<Longrightarrow> x \<noteq> c" using assms by blast
  then show ?thesis by (simp add: dropWhile_append2)
qed

lemma takeWhile_stop:
  assumes "c \<notin> set pre"
  shows "takeWhile (\<lambda>x. x \<noteq> c) (pre @ c # rest) = pre"
proof -
  have "\<And>x. x \<in> set pre \<Longrightarrow> x \<noteq> c" using assms by blast
  then show ?thesis by (simp add: takeWhile_append2)
qed

lemma search_braces_decomp:
  assumes "CHR ''{'' \<notin> set pre" "CHR ''}'' \<notin> set post"
  shows "search_braces (pre @ ''{'' @ mid @ ''}'' @ post) = Some (''{'' @ mid @ ''}'')"
proof -
  have d: "dropWhile (\<lambda>c. c \<noteq> CHR ''{'') (pre @ ''{'' @ mid @ ''}'' @ post)
             = CHR ''{'' # (mid @ ''}'' @ post)"
    using dropWhile_skip [OF assms(1)] by simp
  have "CHR ''}'' \<notin> set (rev post)"
    using assms(2) by simp
  then have "dropWhile (\<lambda>c. c \<noteq> CHR ''}'') (rev post @ CHR ''}'' # rev mid @ ''{'')
               = CHR ''}'' # rev mid @ ''{''"
    by (rule dropWhile_skip)
  then show ?thesis
    unfolding search_braces_def Let_def d by simp
qed

lemma search_flat_braces_decomp:
  assumes "CHR ''{'' \<notin> set pre" "CHR ''}'' \<notin> set mid"
  shows "search_flat_braces (pre @ ''{'' @ mid @ ''}'' @ post) = Some (''{'' @ mid @ ''}'')"
proof -
  have d: "dropWhile (\<lambda>c. c \<noteq> CHR ''{'') (pre @ ''{'' @ mid @ ''}'' @ post)
             = CHR ''{'' # (mid @ ''}'' @ post)"
    using dropWhile_skip [OF assms(1)] by simp
  have "takeWhile (\<lambda>c. c \<noteq> CHR ''}'') (mid @ ''}'' @ post) = mid"
    using takeWhile_stop [OF assms(2)] by simp
  then show ?thesis
    unfolding search_flat_braces_def d by simp
qed

lemma first_to_last_brace_decomp:
  assumes "CHR ''{'' \<notin> set pre" "CHR ''}'' \<notin> set post"
  shows "first_to_last_brace (pre @ ''{'' @ mid @ ''}'' @ post) = ''{'' @ mid @ ''}''"
proof -
  let ?text = "pre @ ''{'' @ mid @ ''}'' @ post"
  have i: "takeWhile (\<lambda>c. c \<noteq> CHR ''{'') ?text = pre"
    using takeWhile_stop [OF assms(1)] by simp
  have "CHR ''}'' \<notin> set (rev post)"
    using assms(2) by simp
  then have "takeWhile (\<lambda>c. c \<noteq> CHR ''}'') (rev post @ CHR ''}'' # rev mid @ ''{'' @ rev pre)
               = rev post"
    by (rule takeWhile_stop)
  then have j: "takeWhile (\<lambda>c. c \<noteq> CHR ''}'') (rev ?text) = rev post"
    by simp
  show ?thesis
    unfolding first_to_last_brace_def Let_def i j by simp
qed

lemma search_braces_SomeD:
  assumes "search_braces text = Some s"
  shows "\<exists>pre mid post. text = pre @ ''{'' @ mid @ ''}'' @ post
           \<and> CHR ''{'' \<notin> set pre \<and> CHR ''}'' \<notin> set post \<and> s = ''{'' @ mid @ ''}''"
proof -
  define pre where "pre = takeWhile (\<lambda>c. c \<noteq> CHR ''{'') text"
  define rest where "rest = dropWhile (\<lambda>c. c \<noteq> CHR ''{'') text"
  define tail where "tail = takeWhile (\<lambda>c. c \<noteq> CHR ''}'') (rev rest)"
  define found where "found = dropWhile (\<lambda>c. c \<noteq> CHR ''}'') (rev rest)"
  from assms have m: "found \<noteq> []" "s = rev found"
    by (auto simp add: search_braces_def Let_def found_def rest_def split: if_splits)
  have whole: "text = pre @ rest"
    by (simp add: pre_def rest_def)
  have "rev rest = tail @ found"
    by (simp add: tail_def found_def)
  then have rest: "rest = rev found @ rev tail"
    by (metis rev_append rev_rev_ident)
  have pre: "CHR ''{'' \<notin> set pre"
    unfolding pre_def by (auto dest: set_takeWhileD)
  have post: "CHR ''}'' \<notin> set (rev tail)"
    unfolding tail_def by (auto dest: set_takeWhileD)
  have "rest \<noteq> []"
    using m(1) rest by simp
  then have "hd rest = CHR ''{''"
    unfolding rest_def using hd_dropWhile [of "\<lambda>c. c \<noteq> CHR ''{''" "text"] by blast
  with m(1) rest have hd_m: "hd (rev found) = CHR ''{''"
    by (metis hd_append2 rev_is_Nil_conv)
  have "hd found = CHR ''}''"
    using m(1) unfolding found_def
    using hd_dropWhile [of "\<lambda>c. c \<noteq> CHR ''}''" "rev rest"] by blast
  with m(1) have last_m: "last (rev found) = CHR ''}''"
    by (simp add: last_rev)
  from m(1) obtain body where b1: "rev found = CHR ''{'' # body"
    using hd_m by (cases "rev found") auto
  with last_m have "body \<noteq> []" by auto
  then obtain mid where b2: "body = mid @ ''}''"
    using last_m b1 by (metis append_butlast_last_id last_ConsR)
  have "text = pre @ ''{'' @ mid @ ''}'' @ rev tail"
    using whole rest b1 b2 by simp
  moreover have "s = ''{'' @ mid @ ''}''"
    using m(2) b1 b2 by simp
  ultimately show ?thesis
    using pre post by blast
qed

lemma search_braces_first_to_last:
  assumes "search_braces text = Some s"
  shows "s = first_to_last_brace text"
  using search_braces_SomeD [OF assms] first_to_last_brace_decomp by fastforce

text \<open>
  C5, as stated, fails. The response \<open>Plan {A}: {"action": "TAB"}\<close> is commentary followed
  by one JSON object. \<open>BigBrain\<close> takes the text from the first \<open>{\<close> to the last \<open>}\<close>, which
  starts in the commentary, is not JSON, and gives no plan. \<open>LocalBrain\<close> does not take
  the text from the first \<open>{\<close> to the last \<open>}\<close> at all: it stops at the first \<open>}\<close>, takes
  \<open>{A}\<close>, and answers from the keywords of the text with a plan that is not the one of
  the object.
\<close>

theorem json_extraction_commentary_counterexample:
  \<open>search_braces ''Plan {A}: {"action": "TAB"}'' = Some ''{A}: {"action": "TAB"}''
   \<and> BigBrain_parse_response loads_example ''Plan {A}: {"action": "TAB"}'' = None
   \<and> search_flat_braces ''Plan {A}: {"action": "TAB"}'' = Some ''{A}''
   \<and> first_to_last_brace ''Plan {A}: {"action": "TAB"}'' = ''{A}: {"action": "TAB"}''
   \<and> extract_plan_from_response loads_example ''Plan {A}: {"action": "TAB"}''
       = [(''action'', JStr ''TAB''), (''duration'', JNum 0.1), (''reason'', JStr ''check map'')]
   \<and> loads_example ''{"action": "TAB"}'' = Some [(''action'', JStr ''TAB'')]\<close>
  by code_simp


text \<open>
  C5, amended. When the pattern of \<open>BigBrain\<close> matches, the match is the text from the
  first \<open>{\<close> to the last \<open>}\<close>; for a response made of commentary without \<open>{\<close>, an object
  in braces and commentary without \<open>}\<close>, \<open>BigBrain\<close> returns what \<open>json.loads\<close> makes of
  that object. \<open>LocalBrain\<close> takes the text from the first \<open>{\<close> to the first \<open>}\<close> behind
  it; for a response made of commentary without \<open>{\<close>, an object in braces with no \<open>}\<close>
  inside and any commentary behind it, the plan is the parsed object with its defaults
  when it parses and has an action, and the keyword plan of the response otherwise.
\<close>

theorem json_extraction_spans:
  "(search_braces response = Some s \<longrightarrow> s = first_to_last_brace response)
   \<and> (CHR ''{'' \<notin> set pre \<and> CHR ''}'' \<notin> set post \<longrightarrow>
        BigBrain_parse_response loads (pre @ ''{'' @ mid @ ''}'' @ post)
          = loads (''{'' @ mid @ ''}''))
   \<and> (CHR ''{'' \<notin> set pre \<and> CHR ''}'' \<notin> set mid \<longrightarrow>
        extract_plan_from_response loads (pre @ ''{'' @ mid @ ''}'' @ post)
          = (case loads (''{'' @ mid @ ''}'') of
               None \<Rightarrow> extract_action_from_text (pre @ ''{'' @ mid @ ''}'' @ post)
             | Some plan \<Rightarrow>
                 if has_key ''action'' plan then set_defaults plan
                 else extract_action_from_text (pre @ ''{'' @ mid @ ''}'' @ post)))"
proof (intro conjI impI)
  assume "search_braces response = Some s"
  then show "s = first_to_last_brace response"
    by (rule search_braces_first_to_last)
next
  assume "CHR ''{'' \<notin> set pre \<and> CHR ''}'' \<notin> set post"
  then have "search_braces (pre @ ''{'' @ mid @ ''}'' @ post) = Some (''{'' @ mid @ ''}'')"
    using search_braces_decomp by blast
  then show "BigBrain_parse_response loads (pre @ ''{'' @ mid @ ''}'' @ post)
          = loads (''{'' @ mid @ ''}'')"
    unfolding BigBrain_parse_response_def by simp
next
  assume "CHR ''{'' \<notin> set pre \<and> CHR ''}'' \<notin> set mid"
  then have "search_flat_braces (pre @ ''{'' @ mid @ ''}'' @ post) = Some (''{'' @ mid @ ''}'')"
    using search_flat_braces_decomp by blast
  then show "extract_plan_from_response loads (pre @ ''{'' @ mid @ ''}'' @ post)
          = (case loads (''{'' @ mid @ ''}'') of
               None \<Rightarrow> extract_action_from_text (pre @ ''{'' @ mid @ ''}'' @ post)
             | Some plan \<Rightarrow>
                 if has_key ''action'' plan then set_defaults plan
                 else extract_action_from_text (pre @ ''{'' @ mid @ ''}'' @ post))"
    unfolding extract_plan_from_response_def by simp
qed


theorem json_extraction_spans_witness:
  \<open>search_braces ''Sure: {"action": "TAB"} done'' = Some ''{"action": "TAB"}''
   \<and> first_to_last_brace ''Sure: {"action": "TAB"} done'' = ''{"action": "TAB"}''
   \<and> BigBrain_parse_response loads_example (''Sure: '' @ ''{'' @ ''"action": "TAB"'' @ ''}'' @ '' done'')
       = Some [(''action'', JStr ''TAB'')]
   \<and> extract_plan_from_response loads_example
         (''Sure: '' @ ''{'' @ ''"action": "TAB"'' @ ''}'' @ '' {done}'')
       = [(''action'', JStr ''TAB''), (''duration'', JNum 1.0),
          (''reason'', JStr ''AI decision'')]\<close>
proof -
  have s: \<open>search_braces ''Sure: {"action": "TAB"} done'' = Some ''{"action": "TAB"}''\<close>
    by code_simp
  have h1: "CHR ''{'' \<notin> set ''Sure: '' \<and> CHR ''}'' \<notin> set '' done''"
    by simp
  have h2: \<open>CHR ''{'' \<notin> set ''Sure: '' \<and> CHR ''}'' \<notin> set ''"action": "TAB"''\<close>
    by simp
  have l: \<open>loads_example (''{'' @ ''"action": "TAB"'' @ ''}'') = Some [(''action'', JStr ''TAB'')]\<close>
    by (simp add: loads_example_def)
  have d: "set_defaults [(''action'', JStr ''TAB'')]
             = [(''action'', JStr ''TAB''), (''duration'', JNum 1.0),
                (''reason'', JStr ''AI decision'')]"
    by (simp add: set_defaults_def has_key_def)
  note t1 = json_extraction_spans [of \<open>''Sure: {"action": "TAB"} done''\<close>
      \<open>''{"action": "TAB"}''\<close> "''Sure: ''" "'' done''" loads_example \<open>''"action": "TAB"''\<close>]
  note t2 = json_extraction_spans [of \<open>''Sure: {"action": "TAB"} done''\<close>
      \<open>''{"action": "TAB"}''\<close> "''Sure: ''" "'' {done}''" loads_example \<open>''"action": "TAB"''\<close>]
  from t1 s have \<open>''{"action": "TAB"}'' = first_to_last_brace ''Sure: {"action": "TAB"} done''\<close>
    by blast
  moreover from t1 h1 l have \<open>BigBrain_parse_response loads_example
        (''Sure: '' @ ''{'' @ ''"action": "TAB"'' @ ''}'' @ '' done'')
       = Some [(''action'', JStr ''TAB'')]\<close>
    by simp
  moreover from t2 h2 l d have \<open>extract_plan_from_response loads_example
         (''Sure: '' @ ''{'' @ ''"action": "TAB"'' @ ''}'' @ '' {done}'')
       = [(''action'', JStr ''TAB''), (''duration'', JNum 1.0),
          (''reason'', JStr ''AI decision'')]\<close>
    by (simp add: has_key_def)
  ultimately show ?thesis
    using s by simp
qed

section \<open>Properties of the defaulting step\<close>

lemma set_defaults_lookup:
  "map_of (set_defaults p) k =
     (if k = ''duration'' \<and> \<not> has_key ''duration'' p then Some (JNum 1.0)
      else if k = ''reason'' \<and> \<not> has_key ''reason'' p then Some (JStr ''AI decision'')
      else map_of p k)"
  by (simp add: set_defaults_def has_key_def Let_def update_conv')

lemma set_defaults_fixed:
  "has_key ''duration'' p \<Longrightarrow> has_key ''reason'' p \<Longrightarrow> set_defaults p = p"
  by (simp add: set_defaults_def Let_def)

lemma set_defaults_has_keys:
  "has_key ''duration'' (set_defaults p)" "has_key ''reason'' (set_defaults p)"
  "has_key ''action'' p \<Longrightarrow> has_key ''action'' (set_defaults p)"
  by (simp_all add: has_key_def set_defaults_lookup)

lemma set_defaults_idem: "set_defaults (set_defaults p) = set_defaults p"
  by (rule set_defaults_fixed) (rule set_defaults_has_keys)+

text \<open>
  C6, as stated, fails on the round trip. The response whose reason is written with the
  escape for \<open>}\<close> is extracted to a plan whose reason contains \<open>}\<close>; \<open>json.dumps\<close> writes
  that character as it is, the pattern of \<open>LocalBrain\<close> stops at it, the cut text is not
  JSON, and the plan extracted from the serialized plan is the keyword plan, with another
  duration and another reason.
\<close>

theorem roundtrip_brace_counterexample:
  \<open>extract_plan_from_response loads_example
       (''{"action": "WAIT", "reason": "a'' @ [CHR 0x5C] @ ''u007db"}'')
     = [(''action'', JStr ''WAIT''), (''reason'', JStr ''a}b''), (''duration'', JNum 1.0)]
   \<and> dumps_example
       [(''action'', JStr ''WAIT''), (''reason'', JStr ''a}b''), (''duration'', JNum 1.0)]
     = ''{"action": "WAIT", "reason": "a}b", "duration": 1.0}''
   \<and> extract_plan_from_response loads_example
       (dumps_example
          [(''action'', JStr ''WAIT''), (''reason'', JStr ''a}b''), (''duration'', JNum 1.0)])
     = [(''action'', JStr ''WAIT''), (''duration'', JNum 2.0),
        (''reason'', JStr ''wait and observe'')]\<close>
  by code_simp


text \<open>
  C6, amended. For a plan with an action, the defaulting step keeps the action, keeps a
  duration and a reason that are present, and sets a missing duration to 1.0 and a missing
  reason to \<open>AI decision\<close>; applied twice it gives what it gives once. For a serializer
  whose text for the defaulted plan is an object in braces with no \<open>}\<close> inside and parses
  back to the plan, extracting from the serialized plan gives the defaulted plan again.
\<close>

theorem set_defaults_roundtrip:
  assumes "has_key ''action'' p"
  shows "map_of (set_defaults p) ''action'' = map_of p ''action''
    \<and> map_of (set_defaults p) ''duration''
        = (if has_key ''duration'' p then map_of p ''duration'' else Some (JNum 1.0))
    \<and> map_of (set_defaults p) ''reason''
        = (if has_key ''reason'' p then map_of p ''reason'' else Some (JStr ''AI decision''))
    \<and> set_defaults (set_defaults p) = set_defaults p
    \<and> (dumps (set_defaults p) = ''{'' @ body @ ''}'' \<and> CHR ''}'' \<notin> set body
          \<and> loads (dumps (set_defaults p)) = Some (set_defaults p)
        \<longrightarrow> extract_plan_from_response loads (dumps (set_defaults p)) = set_defaults p)"
proof -
  have round: "extract_plan_from_response loads (dumps (set_defaults p)) = set_defaults p"
    if d: "dumps (set_defaults p) = ''{'' @ body @ ''}''" and b: "CHR ''}'' \<notin> set body"
      and l: "loads (dumps (set_defaults p)) = Some (set_defaults p)"
  proof -
    have "search_flat_braces ([] @ ''{'' @ body @ ''}'' @ []) = Some (''{'' @ body @ ''}'')"
      using b by (intro search_flat_braces_decomp) simp_all
    then have "search_flat_braces (dumps (set_defaults p)) = Some (dumps (set_defaults p))"
      using d by simp
    then show ?thesis
      using l assms
      by (simp add: extract_plan_from_response_def set_defaults_has_keys set_defaults_idem)
  qed
  then have r: "dumps (set_defaults p) = ''{'' @ body @ ''}'' \<and> CHR ''}'' \<notin> set body
          \<and> loads (dumps (set_defaults p)) = Some (set_defaults p)
        \<longrightarrow> extract_plan_from_response loads (dumps (set_defaults p)) = set_defaults p"
    by blast
  have a: "map_of (set_defaults p) ''action'' = map_of p ''action''"
    by (simp add: set_defaults_lookup)
  have d: "map_of (set_defaults p) ''duration''
        = (if has_key ''duration'' p then map_of p ''duration'' else Some (JNum 1.0))"
    by (simp add: set_defaults_lookup)
  have e: "map_of (set_defaults p) ''reason''
        = (if has_key ''reason'' p then map_of p ''reason'' else Some (JStr ''AI decision''))"
    by (simp add: set_defaults_lookup)
  show ?thesis
    by (rule conjI a d e set_defaults_idem r)+
qed


theorem set_defaults_roundtrip_witness:
  \<open>map_of (set_defaults [(''action'', JStr ''TAB'')]) ''duration'' = Some (JNum 1.0)
   \<and> map_of (set_defaults [(''action'', JStr ''TAB'')]) ''reason'' = Some (JStr ''AI decision'')
   \<and> extract_plan_from_response loads_example
        (dumps_example (set_defaults [(''action'', JStr ''TAB'')]))
      = set_defaults [(''action'', JStr ''TAB'')]\<close>
proof -
  have a: "has_key ''action'' [(''action'', JStr ''TAB'')]"
    by (simp add: has_key_def)
  have d: "set_defaults [(''action'', JStr ''TAB'')]
             = [(''action'', JStr ''TAB''), (''duration'', JNum 1.0),
                (''reason'', JStr ''AI decision'')]"
    by (simp add: set_defaults_def has_key_def)
  have h: \<open>dumps_example (set_defaults [(''action'', JStr ''TAB'')])
             = ''{'' @ ''"action": "TAB", "duration": 1.0, "reason": "AI decision"'' @ ''}''
           \<and> CHR ''}'' \<notin> set ''"action": "TAB", "duration": 1.0, "reason": "AI decision"''
           \<and> loads_example (dumps_example (set_defaults [(''action'', JStr ''TAB'')]))
               = Some (set_defaults [(''action'', JStr ''TAB'')])\<close>
    unfolding d by (simp add: dumps_example_def loads_example_def)
  note t = set_defaults_roundtrip [OF a, of dumps_example
        \<open>''"action": "TAB", "duration": 1.0, "reason": "AI decision"''\<close> loads_example]
  have "extract_plan_from_response loads_example
        (dumps_example (set_defaults [(''action'', JStr ''TAB'')]))
      = set_defaults [(''action'', JStr ''TAB'')]"
    by (rule t [THEN conjunct2, THEN conjunct2, THEN conjunct2, THEN conjunct2, THEN mp, OF h])
  moreover have "map_of (set_defaults [(''action'', JStr ''TAB'')]) ''duration'' = Some (JNum 1.0)"
    using t [THEN conjunct2, THEN conjunct1] by (simp add: has_key_def)
  moreover have "map_of (set_defaults [(''action'', JStr ''TAB'')]) ''reason''
                   = Some (JStr ''AI decision'')"
    using t [THEN conjunct2, THEN conjunct2, THEN conjunct1] by (simp add: has_key_def)
  ultimately show ?thesis
    by (intro conjI)
qed

section \<open>Properties of the floating-point model\<close>

lemma floor_numeral_div:
  "\<lfloor>(numeral a :: rat) / numeral b\<rfloor> = numeral a div numeral b"
  using floor_divide_of_int_eq [of "numeral a" "numeral b", where ?'a = rat] by simp

lemma binade_step:
  "0 < fuel \<Longrightarrow>
   binade fuel x =
     (if x < 1 then binade (fuel - 1) (2 * x) - 1
      else if 2 \<le> x then binade (fuel - 1) (x / 2) + 1
      else 0)"
  by (cases fuel) simp_all

lemmas float_eval =
  to_double_def float_lit_def fadd_def fsub_def round_half_even_def pow2_def Let_def
  floor_numeral_div binade_step

lemma float_literals:
  "float_lit (0) = 0"
  "float_lit (1) = 1"
  "float_lit (3 / 5) = 5404319552844595 / 9007199254740992"
  "float_lit (2 / 5) = 3602879701896397 / 9007199254740992"
  "float_lit (1 / 5) = 3602879701896397 / 18014398509481984"
  "float_lit (3 / 10) = 5404319552844595 / 18014398509481984"
  "float_lit (7 / 10) = 3152519739159347 / 4503599627370496"
  "float_lit (9 / 10) = 8106479329266893 / 9007199254740992"
  by (simp_all add: float_eval)

lemma float_sums:
  "fadd (0) (5404319552844595 / 9007199254740992) = 5404319552844595 / 9007199254740992"
  "fadd (5404319552844595 / 9007199254740992) (3602879701896397 / 18014398509481984) = 3602879701896397 / 4503599627370496"
  "fadd (3602879701896397 / 4503599627370496) (3602879701896397 / 18014398509481984) = 1"
  "fadd (1) (3602879701896397 / 18014398509481984) = 5404319552844595 / 4503599627370496"
  "fadd (5404319552844595 / 9007199254740992) (5404319552844595 / 18014398509481984) = 2026619832316723 / 2251799813685248"
  "fadd (2026619832316723 / 2251799813685248) (3602879701896397 / 18014398509481984) = 4953959590107545 / 4503599627370496"
  "fadd (4953959590107545 / 4503599627370496) (3602879701896397 / 18014398509481984) = 1463669878895411 / 1125899906842624"
  "fadd (1463669878895411 / 1125899906842624) (3602879701896397 / 18014398509481984) = 6755399441055743 / 4503599627370496"
  "fadd (0) (3602879701896397 / 9007199254740992) = 3602879701896397 / 9007199254740992"
  "fadd (3602879701896397 / 9007199254740992) (3602879701896397 / 18014398509481984) = 1351079888211149 / 2251799813685248"
  "fadd (1351079888211149 / 2251799813685248) (3602879701896397 / 18014398509481984) = 3602879701896397 / 4503599627370496"
  "fadd (3602879701896397 / 9007199254740992) (5404319552844595 / 18014398509481984) = 3152519739159347 / 4503599627370496"
  "fadd (3152519739159347 / 4503599627370496) (3602879701896397 / 18014398509481984) = 2026619832316723 / 2251799813685248"
  "fadd (0) (3602879701896397 / 18014398509481984) = 3602879701896397 / 18014398509481984"
  "fadd (3602879701896397 / 18014398509481984) (3602879701896397 / 18014398509481984) = 3602879701896397 / 9007199254740992"
  "fadd (3602879701896397 / 18014398509481984) (5404319552844595 / 18014398509481984) = 1 / 2"
  "fadd (1 / 2) (3602879701896397 / 18014398509481984) = 3152519739159347 / 4503599627370496"
  "fadd (0) (5404319552844595 / 18014398509481984) = 5404319552844595 / 18014398509481984"
  "fadd (5404319552844595 / 18014398509481984) (3602879701896397 / 18014398509481984) = 1 / 2"
  by (simp_all add: float_eval)

lemma complexity_table:
  "complexity_close (fadd (float_lit 0.0) (float_lit 0.6)) (6 / 10) b2 b3 b4 b5"
  "complexity_close (fadd (float_lit 0.0) (float_lit 0.4)) (4 / 10) b2 b3 b4 b5"
  "complexity_close (fadd (float_lit 0.0) (float_lit 0.2)) (2 / 10) b2 b3 b4 b5"
  "complexity_close (float_lit 0.0) 0 b2 b3 b4 b5"
  by (cases b2; cases b3; cases b4; cases b5;
      simp add: complexity_close_def complexity_from_def Let_def float_literals float_sums)+

section \<open>Properties of IntelligentDecisionMaker\<close>

lemma flag_iff: "flag v \<longleftrightarrow> v = Some True"
  by (cases v) (simp_all add: flag_def)

lemma calculate_complexity_steps:
  "calculate_complexity ctx goal =
     complexity_from
       (if goal_id goal = ''do_public_events'' then fadd (float_lit 0.0) (float_lit 0.6)
        else if goal_id goal = ''manage_inventory'' then fadd (float_lit 0.0) (float_lit 0.4)
        else if goal_id goal = ''fishing'' then fadd (float_lit 0.0) (float_lit 0.2)
        else float_lit 0.0)
       (multiple_threats ctx = Some True) (unknown_location ctx = Some True)
       (inventory_full ctx = Some True) (low_resources ctx = Some True)"
  unfolding calculate_complexity_def complexity_from_def Let_def flag_iff by (rule refl)

text \<open>
  C3, as stated, fails on the equality. The score is a sum of floats: for the public
  events goal with several threats it is the float below nine tenths, which is neither
  the exact weighted sum 0.6 + 0.3 nor the float that the literal \<open>0.9\<close> denotes.
\<close>

theorem calculate_complexity_scenario_counterexample:
  "calculate_complexity
     \<lparr>public_event_active = Some True, weight_ratio = Some 0.5, at_water = Some False,
      multiple_threats = Some True, unknown_location = Some False,
      inventory_full = Some False, low_resources = Some False\<rparr>
     \<lparr>goal_id = ''do_public_events'', goal_name = ''Participate in Public Events'',
      enabled = True, priority = 8, weight_threshold = None\<rparr>
     = 2026619832316723 / 2251799813685248
   \<and> weighted_sum
     \<lparr>public_event_active = Some True, weight_ratio = Some 0.5, at_water = Some False,
      multiple_threats = Some True, unknown_location = Some False,
      inventory_full = Some False, low_resources = Some False\<rparr>
     \<lparr>goal_id = ''do_public_events'', goal_name = ''Participate in Public Events'',
      enabled = True, priority = 8, weight_threshold = None\<rparr>
     = 9 / 10
   \<and> float_lit 0.9 = 8106479329266893 / 9007199254740992
   \<and> (2026619832316723 / 2251799813685248 :: rat) < 9 / 10
   \<and> (9 / 10 :: rat) < 8106479329266893 / 9007199254740992"
  by (simp add: calculate_complexity_steps complexity_from_def weighted_sum_def Let_def
      float_literals float_sums)

text \<open>
  C3, amended. The score is the float sum, taken in the order of the code, of the goal's
  base weight (0.6 for public events, 0.4 for inventory management, 0.2 for fishing,
  nothing for any other goal), of 0.3 when the context sets \<open>multiple_threats\<close>, and of 0.2
  for each of \<open>unknown_location\<close>, \<open>inventory_full\<close> and \<open>low_resources\<close> that the context
  sets, cut off at 1.0. It is never negative and never above 1; it differs from the exact
  weighted sum, cut off at 1, by at most \<open>2 ^ -53\<close>; it is 1 exactly when the exact sum
  reaches 1; and it compares with the thresholds 0.7 and 0.6 as the exact sum compares
  with seven and six tenths.
\<close>

theorem calculate_complexity_weighted_sum:
  "0 \<le> calculate_complexity ctx goal
   \<and> calculate_complexity ctx goal \<le> 1
   \<and> \<bar>calculate_complexity ctx goal - min (weighted_sum ctx goal) 1\<bar> \<le> 1 / 2 ^ 53
   \<and> (calculate_complexity ctx goal = 1) = (1 \<le> weighted_sum ctx goal)
   \<and> (float_lit 0.7 \<le> calculate_complexity ctx goal) = (7 / 10 \<le> weighted_sum ctx goal)
   \<and> (float_lit 0.6 \<le> calculate_complexity ctx goal) = (6 / 10 \<le> weighted_sum ctx goal)"
proof -
  let ?b2 = "multiple_threats ctx = Some True"
  let ?b3 = "unknown_location ctx = Some True"
  let ?b4 = "inventory_full ctx = Some True"
  let ?b5 = "low_resources ctx = Some True"
  consider (events) "goal_id goal = ''do_public_events''"
    | (inventory) "goal_id goal \<noteq> ''do_public_events''" "goal_id goal = ''manage_inventory''"
    | (fishing) "goal_id goal \<noteq> ''do_public_events''" "goal_id goal \<noteq> ''manage_inventory''"
        "goal_id goal = ''fishing''"
    | (other) "goal_id goal \<noteq> ''do_public_events''" "goal_id goal \<noteq> ''manage_inventory''"
        "goal_id goal \<noteq> ''fishing''"
    by blast
  then show ?thesis
  proof cases
    case events
    then show ?thesis
      using complexity_table(1) [of ?b2 ?b3 ?b4 ?b5]
      by (simp add: complexity_close_def Let_def calculate_complexity_steps weighted_sum_def)
  next
    case inventory
    then show ?thesis
      using complexity_table(2) [of ?b2 ?b3 ?b4 ?b5]
      by (simp add: complexity_close_def Let_def calculate_complexity_steps weighted_sum_def)
  next
    case fishing
    then show ?thesis
      using complexity_table(3) [of ?b2 ?b3 ?b4 ?b5]
      by (simp add: complexity_close_def Let_def calculate_complexity_steps weighted_sum_def)
  next
    case other
    then show ?thesis
      using complexity_table(4) [of ?b2 ?b3 ?b4 ?b5]
      by (simp add: complexity_close_def Let_def calculate_complexity_steps weighted_sum_def)
  qed
qed

lemma make_decision_strategic_iff:
  "make_decision self ctx goal now = Strategic \<longleftrightarrow>
     calculate_complexity ctx goal \<ge> complex_decision_threshold self
     \<and> remote_available self
     \<and> fsub now (last_remote_call self) \<ge> remote_call_cooldown self"
  by (simp add: make_decision_def Let_def)

lemma init_order_overwrites_tuning:
  "test_kobold_connection True (Connected ''OpenHermes-2.5-Mistral-7B'') self
     = Inr (self\<lparr>is_openhermes := True, complex_decision_threshold := float_lit 0.6,
                 remote_call_cooldown := 30, remote_available := True\<rparr>)"
  "IntelligentDecisionMaker_init True (Connected ''OpenHermes-2.5-Mistral-7B'')
     = Inr \<lparr>remote_available = True, complex_decision_threshold = float_lit 0.7,
            last_remote_call = 0, remote_call_cooldown = 60, is_openhermes = False\<rparr>"
proof -
  have h: "sublist ''openhermes'' (lower ''OpenHermes-2.5-Mistral-7B'')"
    by code_simp
  show "test_kobold_connection True (Connected ''OpenHermes-2.5-Mistral-7B'') self
     = Inr (self\<lparr>is_openhermes := True, complex_decision_threshold := float_lit 0.6,
                 remote_call_cooldown := 30, remote_available := True\<rparr>)"
    by (simp add: test_kobold_connection_def h)
  show "IntelligentDecisionMaker_init True (Connected ''OpenHermes-2.5-Mistral-7B'')
     = Inr \<lparr>remote_available = True, complex_decision_threshold = float_lit 0.7,
            last_remote_call = 0, remote_call_cooldown = 60, is_openhermes = False\<rparr>"
    by (simp add: IntelligentDecisionMaker_init_def test_kobold_connection_def h)
qed

text \<open>
  C4. The routing test of \<open>make_decision\<close> is the one the claim states
  (\<open>make_decision_strategic_iff\<close>), but no decision maker comes to exist: \<open>__init__\<close> calls
  \<open>_test_kobold_connection\<close>, which reads the name \<open>requests\<close>, and the module never
  imports it. Whatever the server answers, the call raises \<open>NameError\<close>, in the \<open>try\<close>
  block and again in the \<open>except\<close> clause, and the exception leaves \<open>__init__\<close>. With the
  name bound there is a second defect (\<open>init_order_overwrites_tuning\<close>): the connection
  test sets the threshold 0.6 and the cooldown 30 for a detected OpenHermes model, and
  \<open>__init__\<close>, which runs the test before assigning its defaults, overwrites them with
  0.7 and 60.
\<close>

theorem decision_maker_init_raises:
  "test_kobold_connection False conn self = Inl NameError
   \<and> IntelligentDecisionMaker_init False conn = Inl NameError"
  by (simp add: IntelligentDecisionMaker_init_def test_kobold_connection_def)

section \<open>Properties of ActionController\<close>

lemma press_never_writes: "press ops device action_name duration = (False, device)"
  by (simp add: press_def press_try_def split: option.splits)

text \<open>
  C9. For every action name that is not a key of \<open>ACTION_TO_KEY\<close>, \<open>press\<close> returns \<open>False\<close>
  and leaves the device as it was: no operation of the device is called. This holds for
  a name that is unknown also after upper-casing, which the lookup rejects, and for a
  name such as \<open>forward\<close> that the lookup finds after upper-casing: the \<open>try\<close> block then
  stops at its first statement on the unbound local \<open>e\<close> (\<open>press_never_writes\<close>).
\<close>

theorem press_unknown_rejected:
  assumes "map_of ACTION_TO_KEY action_name = None"
  shows "press ops device action_name duration = (False, device)"
  by (simp add: press_def press_try_def split: option.splits)

theorem press_unknown_rejected_witness:
  "press recording_device [EvKey KEY_W 1, EvSyn] ''Fly'' 2 = (False, [EvKey KEY_W 1, EvSyn])
   \<and> press recording_device [] ''forward'' 0.1 = (False, [])"
proof -
  have h1: "map_of ACTION_TO_KEY ''Fly'' = None"
    by (simp add: ACTION_TO_KEY_def)
  have h2: "map_of ACTION_TO_KEY ''forward'' = None"
    by (simp add: ACTION_TO_KEY_def)
  show ?thesis
    by (rule conjI) (rule press_unknown_rejected [OF h1], rule press_unknown_rejected [OF h2])
qed

end
